theory Spec2Isabelle
  imports Main "HOL-Library.Word"
begin

unbundle bit_operations_syntax

section \<open>Machine types and failures\<close>

text \<open>
  The plugin is C++ on an LP64 platform: \<open>unsigned int\<close> and \<open>int\<close> are 32 bits wide,
  \<open>size_t\<close>, \<open>unsigned long\<close> and \<open>long long\<close> are 64 bits wide, \<open>unsigned short\<close> is
  16 bits wide. A byte string (\<open>const char*\<close> up to its terminator, or a \<open>std::string\<close>)
  is a \<open>string\<close>.
\<close>

type_synonym uint = "32 word"
type_synonym ushort = "16 word"
type_synonym size_t = "64 word"
type_synonym longlong = "64 word"

text \<open>
  Every way a call can end other than by returning. The first six are the C++ exceptions
  of the sources (\<open>ConnectionLostException\<close> derives from \<open>IOException\<close>, which derives
  from \<open>XMLToolingException\<close>); \<open>UndefinedBehaviour\<close> stands for a null-pointer
  dereference, an out-of-range array read or an oversized shift: it is no exception, and
  no handler catches it.
\<close>

datatype error =
    ConnectionLostException
  | RedirectedException string uint
  | IOException
  | XMLToolingException
  | std_invalid_argument
  | std_out_of_range
  | UndefinedBehaviour

section \<open>redis-crc-16.h: the CRC16 accumulator\<close>

text \<open>
  The CRC16-XMODEM of the specification, written bit by bit: polynomial \<open>0x1021\<close>,
  initial value 0, bytes fed most significant bit first (no reflection), no final XOR.
  This is the reference the table-driven code below is compared with.
\<close>

definition crc16_shift :: "16 word \<Rightarrow> 16 word" where
  "crc16_shift c = (if bit c 15 then push_bit 1 c XOR 0x1021 else push_bit 1 c)"

definition crc16_xmodem_byte :: "16 word \<Rightarrow> char \<Rightarrow> 16 word" where
  "crc16_xmodem_byte c b = (crc16_shift ^^ 8) (c XOR push_bit 8 (of_char b))"

definition crc16_xmodem :: "string \<Rightarrow> 16 word" where
  "crc16_xmodem bs = foldl crc16_xmodem_byte 0 bs"

text \<open>
  Modelled from the spec: the three static constants of \<open>RedisCrc16\<close> are declared in
  \<open>redis-crc-16.h\<close> and defined in a file that is not among the sources. The
  specification fixes them: the lookup table is the CRC16-XMODEM table of polynomial
  \<open>0x1021\<close> (entry \<open>i\<close> is the register after the byte \<open>i\<close> has gone through an empty
  register), the initial value is 0, and there are 16384 hash slots.
\<close>

definition Crc16Constants :: "uint list" where
  "Crc16Constants =
     map (\<lambda>i. ucast ((crc16_shift ^^ 8) (push_bit 8 (of_nat i)))) [0..<256]"

definition Initial :: uint where
  "Initial = 0"

definition HashSlotCount :: uint where
  "HashSlotCount = 16384"

text \<open>
  \<open>RedisCrc16::operator()\<close>. The byte is a \<open>char\<close>, signed on the platforms the
  plugin builds for, so \<open>static_cast<unsigned int>(byte)\<close> sign-extends it.
\<close>

definition RedisCrc16_op :: "uint \<Rightarrow> char \<Rightarrow> uint" where
  "RedisCrc16_op accumulator byte =
     (push_bit 8 accumulator AND 0xFFFF)
       XOR Crc16Constants
             ! unat ((drop_bit 8 accumulator XOR scast (of_char byte :: 8 word)) AND 0xFF)"

text \<open>\<open>RedisCrc16::calculate\<close>: \<open>std::accumulate\<close> over the byte range.\<close>

definition calculate :: "string \<Rightarrow> uint \<Rightarrow> uint" where
  "calculate bytes initial = foldl RedisCrc16_op initial bytes"

section \<open>storage-id.h: composite identifiers\<close>

record StorageId =
  m_context :: string
  m_key :: string
  m_prefix :: string

text \<open>\<open>StorageId::hashSlotUsing<RedisCrc16>\<close>: the CRC is chained through the four pieces.\<close>

definition hashSlotUsing :: "StorageId \<Rightarrow> uint" where
  "hashSlotUsing sid =
     (let context = calculate (m_context sid) Initial;
          colon = calculate '':'' context;
          prefix = calculate (m_prefix sid) colon;
          total = calculate (m_key sid) prefix
      in total mod HashSlotCount)"

text \<open>
  \<open>SPREDIS_SID_FMT\<close> with \<open>SPREDIS_SID_FPARAM\<close>: the data key as the commands send it,
  and the version key the commands build from it.
\<close>

definition SPREDIS_SID :: "StorageId \<Rightarrow> string" where
  "SPREDIS_SID sid = ''{'' @ m_context sid @ '':'' @ m_prefix sid @ m_key sid @ ''}''"

definition version_of :: "StorageId \<Rightarrow> string" where
  "version_of sid = ''version.of:'' @ SPREDIS_SID sid"

text \<open>
  Modelled from the spec: the slot the Redis server assigns to a key. The server is not
  part of the repository; the specification's glossary gives the rule (hash slot = CRC16-XMODEM
  mod 16384; with a hash tag only the \<open>{...}\<close> substring is hashed). The tag is what
  lies between the first \<open>{\<close> and the first \<open>}\<close> after it; a key without such a pair,
  or with nothing between the braces, is hashed whole.
\<close>

definition hash_tag :: "string \<Rightarrow> string" where
  "hash_tag k =
     (case dropWhile (\<lambda>c. c \<noteq> CHR ''{'') k of
        [] \<Rightarrow> k
      | _ # rest \<Rightarrow>
          (if CHR ''}'' \<in> set rest
           then (case takeWhile (\<lambda>c. c \<noteq> CHR ''}'') rest of [] \<Rightarrow> k | t # ts \<Rightarrow> t # ts)
           else k))"

definition slot_of_redis_key :: "string \<Rightarrow> uint" where
  "slot_of_redis_key k = ucast (crc16_xmodem (hash_tag k)) mod 16384"

section \<open>cluster-range.h: slot ranges\<close>

record ClusterRange =
  m_start :: uint
  m_end :: uint

text \<open>The constructor, with \<open>HashSlots = 16384\<close>.\<close>

definition ClusterRange_ctor :: "uint \<Rightarrow> uint \<Rightarrow> error + ClusterRange" where
  "ClusterRange_ctor start end' =
     (if end' < start then Inl XMLToolingException
      else if 16384 \<le> end' then Inl XMLToolingException
      else Inr \<lparr>m_start = start, m_end = end'\<rparr>)"

text \<open>\<open>compare(const ClusterRange&)\<close>.\<close>

definition compare :: "ClusterRange \<Rightarrow> ClusterRange \<Rightarrow> int" where
  "compare this rhs =
     (if m_start this < m_start rhs then -1
      else if m_start this > m_start rhs then 1
      else if m_end this < m_end rhs then -1
      else if m_end this > m_end rhs then 1
      else 0)"

text \<open>\<open>compare(const StorageId&)\<close>.\<close>

definition compare_id :: "ClusterRange \<Rightarrow> StorageId \<Rightarrow> int" where
  "compare_id this sid =
     (let hashSlot = hashSlotUsing sid mod 16384
      in if hashSlot < m_start this then 1
         else if hashSlot > m_end this then -1
         else 0)"

text \<open>The member operators on two ranges, each as the header writes it.\<close>

definition operator_less :: "ClusterRange \<Rightarrow> ClusterRange \<Rightarrow> bool" where
  "operator_less this rhs = (compare this rhs < 0)"

definition operator_less_eq :: "ClusterRange \<Rightarrow> ClusterRange \<Rightarrow> bool" where
  "operator_less_eq this rhs = (compare this rhs < 0)"

definition operator_greater :: "ClusterRange \<Rightarrow> ClusterRange \<Rightarrow> bool" where
  "operator_greater this rhs = (compare this rhs > 0)"

definition operator_greater_eq :: "ClusterRange \<Rightarrow> ClusterRange \<Rightarrow> bool" where
  "operator_greater_eq this rhs = (compare this rhs \<ge> 0)"

definition operator_eq :: "ClusterRange \<Rightarrow> ClusterRange \<Rightarrow> bool" where
  "operator_eq this rhs = (compare this rhs = 0)"

text \<open>
  \<open>ClusterCompareLess\<close> on mixed arguments: the friend operators \<open>range < id\<close> and
  \<open>id < range\<close>.
\<close>

definition range_less_id :: "ClusterRange \<Rightarrow> StorageId \<Rightarrow> bool" where
  "range_less_id lhs rhs = (compare_id lhs rhs < 0)"

definition id_less_range :: "StorageId \<Rightarrow> ClusterRange \<Rightarrow> bool" where
  "id_less_range lhs rhs = (compare_id rhs lhs > 0)"

section \<open>cluster-node.h, redis.h: nodes and the configuration\<close>

text \<open>Of \<open>RedisConfig\<close>, the seed nodes and the three retry parameters.\<close>

record ClusterNode =
  m_host :: string
  m_port :: ushort

record RedisConfig =
  initialNodes :: "ClusterNode list"
  maxRetries :: uint
  baseWait :: uint
  maxWait :: uint

section \<open>redis-cluster.cpp: back-off\<close>

definition waitTime :: "uint \<Rightarrow> uint" where
  "waitTime config = (if config = 0 then - 1 else config)"

text \<open>
  \<open>RedisCluster::tryWaitWithRetryNumber\<close>. The result pairs the returned flag with the
  argument of \<open>usleep\<close> (microseconds), \<open>None\<close> when the function returns before
  sleeping. \<open>retry\<close> is an \<open>int\<close>; the cast to \<open>unsigned int\<close> keeps its bits. The
  shift \<open>1 << retryUnsigned\<close> is on a 32-bit \<open>int\<close>: a count of 32 or more is undefined,
  and a count of 31 gives the sign bit, \<open>2^31\<close> once converted for the unsigned product.
\<close>

definition tryWaitWithRetryNumber :: "RedisConfig \<Rightarrow> uint \<Rightarrow> error + bool \<times> uint option" where
  "tryWaitWithRetryNumber m_config retry =
     (let retryUnsigned = retry
      in if retryUnsigned > maxRetries m_config then Inr (False, None)
         else if 32 \<le> unat retryUnsigned then Inl UndefinedBehaviour
         else
           (let toWait = baseWait m_config * push_bit (unat retryUnsigned) 1;
                usTrueWait = 1000 * min toWait (waitTime (maxWait m_config))
            in Inr (True, Some usTrueWait)))"

section \<open>The pieces of the C++ standard library the error classifier uses\<close>

text \<open>\<open>std::string::npos\<close>, \<open>find(char, pos)\<close> and \<open>substr(pos, count)\<close>, on \<open>size_t\<close>.\<close>

definition npos :: size_t where
  "npos = - 1"

definition string_find :: "string \<Rightarrow> char \<Rightarrow> size_t \<Rightarrow> size_t" where
  "string_find s ch pos =
     (let rest = drop (unat pos) s
      in if ch \<in> set rest then pos + of_nat (length (takeWhile (\<lambda>c. c \<noteq> ch) rest))
         else npos)"

definition substr :: "string \<Rightarrow> size_t \<Rightarrow> size_t \<Rightarrow> error + string" where
  "substr s pos count =
     (if length s < unat pos then Inl std_out_of_range
      else Inr (take (unat count) (drop (unat pos) s)))"

text \<open>
  \<open>std::stoul\<close> and \<open>std::stoi\<close> in base 10, after \<open>strtoul\<close> and \<open>strtol\<close>: leading
  white space is skipped, one sign is accepted, the longest run of digits is read and the
  rest of the string is ignored. No digit: \<open>std::invalid_argument\<close>. A value that does
  not fit: \<open>std::out_of_range\<close>. \<open>strtoul\<close> negates a value written with a minus sign.
\<close>

definition isspace :: "char \<Rightarrow> bool" where
  "isspace c = (c \<in> set [CHR '' '', CHR 0x09, CHR 0x0A, CHR 0x0B, CHR 0x0C, CHR 0x0D])"

definition isdigit :: "char \<Rightarrow> bool" where
  "isdigit c = (c \<in> set ''0123456789'')"

definition decimal :: "string \<Rightarrow> nat" where
  "decimal ds = foldl (\<lambda>n c. 10 * n + (of_char c - 48)) 0 ds"

definition sign_and_digits :: "string \<Rightarrow> bool \<times> string" where
  "sign_and_digits s =
     (case dropWhile isspace s of
        [] \<Rightarrow> (False, [])
      | c # cs \<Rightarrow>
          if c = CHR ''-'' then (True, takeWhile isdigit cs)
          else if c = CHR ''+'' then (False, takeWhile isdigit cs)
          else (False, takeWhile isdigit (c # cs)))"

definition stoul :: "string \<Rightarrow> error + 64 word" where
  "stoul s =
     (case sign_and_digits s of
        (negative, ds) \<Rightarrow>
          if ds = [] then Inl std_invalid_argument
          else if 2 ^ 64 \<le> decimal ds then Inl std_out_of_range
          else if negative then Inr (- of_nat (decimal ds))
          else Inr (of_nat (decimal ds)))"

definition stoi :: "string \<Rightarrow> error + 32 word" where
  "stoi s =
     (case sign_and_digits s of
        (negative, ds) \<Rightarrow>
          if ds = [] then Inl std_invalid_argument
          else if negative then
            (if 2 ^ 31 < decimal ds then Inl std_out_of_range
             else Inr (- of_nat (decimal ds)))
          else
            (if 2 ^ 31 \<le> decimal ds then Inl std_out_of_range
             else Inr (of_nat (decimal ds))))"

section \<open>redis-connection.cpp: the error classifier\<close>

text \<open>
  \<open>RedisConnection::handlePotentialMovedError\<close>: \<open>None\<close> when the function returns,
  \<open>Some e\<close> when it throws \<open>e\<close>. The handlers around \<open>std::stoul\<close> catch both standard
  exceptions, also the \<open>std::out_of_range\<close> of the \<open>substr\<close> inside the \<open>try\<close> block; the
  last \<open>substr\<close> stands outside it. The result of \<open>std::stoul\<close> is stored in an
  \<open>unsigned int\<close>. Log calls are not modelled, here or below.
\<close>

definition handlePotentialMovedError :: "string \<Rightarrow> error option" where
  "handlePotentialMovedError err_str =
     (if substr err_str 0 6 \<noteq> Inr ''MOVED '' then None
      else
        (let spaceBeforeLocation = string_find err_str CHR '' '' 7;
             portColonLocation = string_find err_str CHR '':'' spaceBeforeLocation;
             port =
               (case substr err_str (portColonLocation + 1) npos of
                  Inl e \<Rightarrow> 6379
                | Inr digits \<Rightarrow>
                    (case stoul digits of Inl e \<Rightarrow> 6379 | Inr value \<Rightarrow> ucast value))
         in case substr err_str (spaceBeforeLocation + 1)
                   (portColonLocation - spaceBeforeLocation - 1) of
              Inl e \<Rightarrow> Some e
            | Inr host \<Rightarrow> Some (RedirectedException host port)))"

text \<open>
  \<open>RedisConnection::handleCommandError\<close>, which always throws; the result is what it
  throws. \<open>sizeof("CLUSTERDO")\<close> is 10 and \<open>sizeof("MOVED")\<close> is 6. The names of the
  calling function and of the command only go into the message.
\<close>

definition handleCommandError :: "string \<Rightarrow> error" where
  "handleCommandError err_str =
     (if 10 < length err_str then ConnectionLostException
      else
        (case (if 6 < length err_str then handlePotentialMovedError err_str else None) of
           Some e \<Rightarrow> e
         | None \<Rightarrow> IOException))"

text \<open>
  \<open>RedisConnection::handleCriticalError\<close> tries to reconnect and then always throws
  \<open>ConnectionLostException\<close>; the reconnection is not modelled.
\<close>

definition handleCriticalError :: error where
  "handleCriticalError = ConnectionLostException"

section \<open>redis-reply.h: replies\<close>

text \<open>
  A \<open>redisReply\<close> of the client library, by its \<open>type\<close>. The fields a reply of another
  type does not carry read as the library leaves them: \<open>integer\<close> 0, \<open>str\<close> empty,
  \<open>elements\<close> 0.
\<close>

datatype reply_type =
    REDIS_REPLY_STRING
  | REDIS_REPLY_ARRAY
  | REDIS_REPLY_INTEGER
  | REDIS_REPLY_NIL
  | REDIS_REPLY_STATUS
  | REDIS_REPLY_ERROR

datatype redisReply =
    String_reply string
  | Array_reply "redisReply list"
  | Integer_reply longlong
  | Nil_reply
  | Status_reply string
  | Error_reply string

fun r_type :: "redisReply \<Rightarrow> reply_type" where
  "r_type (String_reply s) = REDIS_REPLY_STRING"
| "r_type (Array_reply rs) = REDIS_REPLY_ARRAY"
| "r_type (Integer_reply n) = REDIS_REPLY_INTEGER"
| "r_type Nil_reply = REDIS_REPLY_NIL"
| "r_type (Status_reply s) = REDIS_REPLY_STATUS"
| "r_type (Error_reply s) = REDIS_REPLY_ERROR"

fun r_integer :: "redisReply \<Rightarrow> longlong" where
  "r_integer (Integer_reply n) = n"
| "r_integer r = 0"

fun r_str :: "redisReply \<Rightarrow> string" where
  "r_str (String_reply s) = s"
| "r_str (Status_reply s) = s"
| "r_str (Error_reply s) = s"
| "r_str r = []"

fun r_element :: "redisReply \<Rightarrow> redisReply list" where
  "r_element (Array_reply rs) = rs"
| "r_element r = []"

definition r_elements :: "redisReply \<Rightarrow> nat" where
  "r_elements r = length (r_element r)"

text \<open>\<open>reply->element[i]\<close>: reading past the \<open>elements\<close> pointers of the array is undefined.\<close>

definition element_at :: "redisReply \<Rightarrow> nat \<Rightarrow> error + redisReply" where
  "element_at r i = (if i < r_elements r then Inr (r_element r ! i) else Inl UndefinedBehaviour)"

text \<open>\<open>RedisReply::ensureType\<close>.\<close>

definition ensureType :: "reply_type \<Rightarrow> redisReply \<Rightarrow> error + unit" where
  "ensureType type r = (if type = r_type r then Inr () else Inl IOException)"

text \<open>\<open>RedisReply::throwIfErroneous\<close>, on the reply the wrapper holds (\<open>None\<close>: a null reply).\<close>

definition throwIfErroneous :: "redisReply option \<Rightarrow> error + unit" where
  "throwIfErroneous m_reply =
     (case m_reply of
        None \<Rightarrow> Inl handleCriticalError
      | Some r \<Rightarrow>
          if r_type r = REDIS_REPLY_ERROR then Inl (handleCommandError (r_str r))
          else Inr ())"

section \<open>A connection and its server\<close>

text \<open>
  The commands the storage operations format. Every key is the rendered \<open>StorageId\<close>;
  expirations are \<open>time_t\<close> values cast to \<open>long long\<close>.
\<close>

datatype command =
    MULTI
  | EXEC
  | WATCH string
  | UNWATCH
  | SET_NX_EXAT string string longlong
  | SET_XX_KEEPTTL string string
  | GET string
  | EXPIRETIME string
  | INCR string
  | EXPIREAT string longlong
  | UNLINK "string list"

text \<open>
  The server end of a connection is a parameter of the model: a function that answers one
  command in a state of its own, \<open>None\<close> when the transport fails. A connection holds
  that state and the replies the client library has not handed out yet: a command
  appended to the pipeline is answered in the order it was sent, and the answer waits
  until the client reads it. Every operation holds the mutex of its connection from start
  to end, so an operation is modelled as running alone on its connection.
\<close>

type_synonym 's server = "command \<Rightarrow> 's \<Rightarrow> redisReply option \<times> 's"

record 's RedisConnection =
  m_redis :: 's
  unread :: "redisReply option list"

text \<open>
  A step of a member function: it runs in a state and either returns a value or throws,
  leaving a state behind in both cases.
\<close>

type_synonym ('s, 'a) action = "'s \<Rightarrow> (error + 'a) \<times> 's"

definition ret :: "'a \<Rightarrow> ('s, 'a) action" where
  "ret x = (\<lambda>s. (Inr x, s))"

definition throw :: "error \<Rightarrow> ('s, 'a) action" where
  "throw e = (\<lambda>s. (Inl e, s))"

definition and_then :: "('s, 'a) action \<Rightarrow> ('a \<Rightarrow> ('s, 'b) action) \<Rightarrow> ('s, 'b) action" where
  "and_then m f = (\<lambda>s. case m s of (Inl e, s') \<Rightarrow> (Inl e, s') | (Inr x, s') \<Rightarrow> f x s')"

definition lift :: "error + 'a \<Rightarrow> ('s, 'a) action" where
  "lift r = (\<lambda>s. (r, s))"

definition only_if :: "bool \<Rightarrow> ('s, unit) action \<Rightarrow> ('s, unit) action" where
  "only_if b m = (if b then m else ret ())"

text \<open>\<open>RedisConnection::appendCommand\<close>, \<open>redisGetReply\<close> and \<open>redisCommand\<close>.\<close>

definition appendCommand :: "'s server \<Rightarrow> command \<Rightarrow> ('s RedisConnection, unit) action" where
  "appendCommand srv cmd =
     (\<lambda>c. case srv cmd (m_redis c) of
             (r, s') \<Rightarrow> (Inr (), c\<lparr>m_redis := s', unread := unread c @ [r]\<rparr>))"

definition redisGetReply :: "'s RedisConnection \<Rightarrow> redisReply option \<times> 's RedisConnection" where
  "redisGetReply c =
     (case unread c of
        [] \<Rightarrow> (None, c)
      | r # rs \<Rightarrow> (r, c\<lparr>unread := rs\<rparr>))"

definition redisCommand ::
  "'s server \<Rightarrow> command \<Rightarrow> 's RedisConnection \<Rightarrow> redisReply option \<times> 's RedisConnection" where
  "redisCommand srv cmd c = redisGetReply (snd (appendCommand srv cmd c))"

text \<open>
  \<open>RedisReply::getNextFromConnection\<close>; \<open>type\<close> is \<open>None\<close> for the default argument 0.
  The reply the wrapper holds afterwards is the value returned.
\<close>

definition getNextFromConnection ::
  "reply_type option \<Rightarrow> ('s RedisConnection, redisReply) action" where
  "getNextFromConnection type =
     (\<lambda>c. case redisGetReply c of
             (None, c') \<Rightarrow> (Inl handleCriticalError, c')
           | (Some r, c') \<Rightarrow>
               (case throwIfErroneous (Some r) of
                  Inl e \<Rightarrow> (Inl e, c')
                | Inr u \<Rightarrow>
                    (case type of
                       None \<Rightarrow> (Inr r, c')
                     | Some t \<Rightarrow>
                         (case ensureType t r of
                            Inl e \<Rightarrow> (Inl e, c')
                          | Inr u \<Rightarrow> (Inr r, c')))))"

text \<open>The message \<open>handleCommandError\<close> is given when \<open>EXEC\<close> returns the wrong number of results.\<close>

definition incorrect_amount :: string where
  "incorrect_amount = ''incorrect amount of results from EXEC''"

section \<open>redis-connection.cpp: the storage operations\<close>

text \<open>\<open>RedisConnection::parseNumber\<close>: both exceptions of \<open>stoi\<close> give 0.\<close>

definition parseNumber :: "string \<Rightarrow> 32 word" where
  "parseNumber s = (case stoi s of Inl e \<Rightarrow> 0 | Inr n \<Rightarrow> n)"

text \<open>\<open>RedisConnection::getOnlyVersion\<close>.\<close>

definition getOnlyVersion :: "'s server \<Rightarrow> StorageId \<Rightarrow> ('s RedisConnection, 32 word) action" where
  "getOnlyVersion srv sid =
     and_then (appendCommand srv (GET (version_of sid))) (\<lambda>u.
     and_then (getNextFromConnection (Some REDIS_REPLY_STRING)) (\<lambda>reply.
     ret (parseNumber (r_str reply))))"

text \<open>
  \<open>RedisConnection::set\<close>. The part after the four replies have been read is
  \<open>set_results\<close>; the reply of the \<open>UNLINK\<close> is dropped unread by the source.
\<close>

definition set_results ::
  "'s server \<Rightarrow> StorageId \<Rightarrow> redisReply \<Rightarrow> ('s RedisConnection, bool) action" where
  "set_results srv sid reply =
     (if r_elements reply \<noteq> 2 then throw (handleCommandError incorrect_amount)
      else if r_type (r_element reply ! 0) \<noteq> REDIS_REPLY_STATUS then
        (if r_type (r_element reply ! 0) = REDIS_REPLY_NIL then ret False
         else throw (handleCommandError (r_str (r_element reply ! 0))))
      else if r_type (r_element reply ! 1) \<noteq> REDIS_REPLY_STATUS then
        (if r_type (r_element reply ! 1) = REDIS_REPLY_NIL then
           (\<lambda>c. (Inr False, snd (redisCommand srv (UNLINK [SPREDIS_SID sid, version_of sid]) c)))
         else throw (handleCommandError (r_str (r_element reply ! 1))))
      else ret True)"

definition RedisConnection_set ::
  "'s server \<Rightarrow> StorageId \<Rightarrow> string \<Rightarrow> longlong \<Rightarrow> ('s RedisConnection, bool) action" where
  "RedisConnection_set srv sid value expiration =
     and_then (appendCommand srv MULTI) (\<lambda>u.
     and_then (appendCommand srv (SET_NX_EXAT (SPREDIS_SID sid) value expiration)) (\<lambda>u.
     and_then (appendCommand srv (SET_NX_EXAT (version_of sid) ''1'' expiration)) (\<lambda>u.
     and_then (appendCommand srv EXEC) (\<lambda>u.
     and_then (getNextFromConnection (Some REDIS_REPLY_STATUS)) (\<lambda>r.
     and_then (getNextFromConnection (Some REDIS_REPLY_STATUS)) (\<lambda>r.
     and_then (getNextFromConnection (Some REDIS_REPLY_STATUS)) (\<lambda>r.
     and_then (getNextFromConnection (Some REDIS_REPLY_ARRAY)) (\<lambda>reply.
     set_results srv sid reply))))))))"

text \<open>
  \<open>RedisConnection::forceGet\<close>. The two output pointers are given as flags (\<open>True\<close>: not
  null); the result carries the returned version and what was written through each
  pointer, \<open>None\<close> when nothing was. The test of the two \<open>NIL\<close> types reads
  \<open>element[1]\<close> unless \<open>element[0]\<close> already is \<open>NIL\<close>.
\<close>

definition forceGet_results ::
  "bool \<Rightarrow> bool \<Rightarrow> redisReply \<Rightarrow> error + 32 word \<times> string option \<times> longlong option" where
  "forceGet_results out_value out_expiration reply =
     (if r_elements reply \<noteq> 1 + (if out_value then 1 else 0) + (if out_expiration then 1 else 0)
      then Inl (handleCommandError incorrect_amount)
      else
        (case element_at reply 0 of
           Inl e \<Rightarrow> Inl e
         | Inr version_reply \<Rightarrow>
             if r_type version_reply = REDIS_REPLY_NIL then Inr (0, None, None)
             else
               (case element_at reply 1 of
                  Inl e \<Rightarrow> Inl e
                | Inr second \<Rightarrow>
                    if r_type second = REDIS_REPLY_NIL then Inr (0, None, None)
                    else
                      (case ensureType REDIS_REPLY_STRING version_reply of
                         Inl e \<Rightarrow> Inl e
                       | Inr u \<Rightarrow>
                           (let version = parseNumber (r_str version_reply);
                                expiration_index = (if out_value then 2 else 1)
                            in case (if out_value
                                     then (case ensureType REDIS_REPLY_STRING second of
                                             Inl e \<Rightarrow> Inl e
                                           | Inr u \<Rightarrow> Inr (Some (r_str second)))
                                     else Inr None) of
                                 Inl e \<Rightarrow> Inl e
                               | Inr value_written \<Rightarrow>
                                   if out_expiration then
                                     (case element_at reply expiration_index of
                                        Inl e \<Rightarrow> Inl e
                                      | Inr expiration_reply \<Rightarrow>
                                          (case ensureType REDIS_REPLY_INTEGER expiration_reply of
                                             Inl e \<Rightarrow> Inl e
                                           | Inr u \<Rightarrow>
                                               Inr (version, value_written,
                                                    Some (r_integer expiration_reply))))
                                   else Inr (version, value_written, None))))))"

definition forceGet ::
  "'s server \<Rightarrow> StorageId \<Rightarrow> bool \<Rightarrow> bool
     \<Rightarrow> ('s RedisConnection, 32 word \<times> string option \<times> longlong option) action" where
  "forceGet srv sid out_value out_expiration =
     and_then (appendCommand srv MULTI) (\<lambda>u.
     and_then (appendCommand srv (GET (version_of sid))) (\<lambda>u.
     and_then (only_if out_value (appendCommand srv (GET (SPREDIS_SID sid)))) (\<lambda>u.
     and_then (only_if out_expiration (appendCommand srv (EXPIRETIME (SPREDIS_SID sid)))) (\<lambda>u.
     and_then (appendCommand srv EXEC) (\<lambda>u.
     and_then (getNextFromConnection (Some REDIS_REPLY_STATUS)) (\<lambda>r.
     and_then (getNextFromConnection (Some REDIS_REPLY_STATUS)) (\<lambda>r.
     and_then (only_if out_value
                 (and_then (getNextFromConnection (Some REDIS_REPLY_STATUS)) (\<lambda>r. ret ()))) (\<lambda>u.
     and_then (only_if out_expiration
                 (and_then (getNextFromConnection (Some REDIS_REPLY_STATUS)) (\<lambda>r. ret ()))) (\<lambda>u.
     and_then (getNextFromConnection (Some REDIS_REPLY_ARRAY)) (\<lambda>reply.
     lift (forceGet_results out_value out_expiration reply)))))))))))"

text \<open>
  \<open>RedisConnection::updateVersioned\<close>. One round of the loop is \<open>updateVersioned_try\<close>:
  \<open>Some v\<close> when the round returns \<open>v\<close>, \<open>None\<close> when it ends in \<open>continue\<close>. The
  version is an \<open>int\<close>, so \<open>-1\<close> is the word \<open>- 1\<close>; the comparison with the \<open>INCR\<close>
  result is made in \<open>long long\<close>, and the result returned is that value cast to \<open>int\<close>.
\<close>

definition updateVersioned_results :: "longlong \<Rightarrow> 32 word \<Rightarrow> redisReply \<Rightarrow> error + 32 word option" where
  "updateVersioned_results expiration currentVersion reply =
     (if r_type reply = REDIS_REPLY_NIL then Inr None
      else
        (case ensureType REDIS_REPLY_ARRAY reply of
           Inl e \<Rightarrow> Inl e
         | Inr u \<Rightarrow>
             if r_elements reply \<noteq> 2 + 2 * (if expiration \<noteq> 0 then 1 else 0)
             then Inl (handleCommandError incorrect_amount)
             else
               (case ensureType REDIS_REPLY_STATUS (r_element reply ! 0) of
                  Inl e \<Rightarrow> Inl e
                | Inr u \<Rightarrow>
                    (let incr = r_element reply ! 1
                     in case ensureType REDIS_REPLY_INTEGER incr of
                          Inl e \<Rightarrow> Inl e
                        | Inr u \<Rightarrow>
                            if r_integer incr - 1 \<noteq> scast currentVersion then Inr None
                            else if expiration \<noteq> 0 then
                              (case ensureType REDIS_REPLY_INTEGER (r_element reply ! 2) of
                                 Inl e \<Rightarrow> Inl e
                               | Inr u \<Rightarrow>
                                   (case ensureType REDIS_REPLY_INTEGER (r_element reply ! 3) of
                                      Inl e \<Rightarrow> Inl e
                                    | Inr u \<Rightarrow> Inr (Some (ucast (r_integer incr)))))
                            else Inr (Some (ucast (r_integer incr)))))))"

definition updateVersioned_try ::
  "'s server \<Rightarrow> StorageId \<Rightarrow> string \<Rightarrow> longlong \<Rightarrow> 32 word
     \<Rightarrow> ('s RedisConnection, 32 word option) action" where
  "updateVersioned_try srv sid value expiration ifVersion =
     and_then (appendCommand srv (WATCH (version_of sid))) (\<lambda>u.
     and_then (getNextFromConnection (Some REDIS_REPLY_STATUS)) (\<lambda>r.
     and_then (getOnlyVersion srv sid) (\<lambda>currentVersion.
     if currentVersion \<noteq> ifVersion then ret (Some (- 1))
     else
       and_then (appendCommand srv MULTI) (\<lambda>u.
       and_then (appendCommand srv (SET_XX_KEEPTTL (SPREDIS_SID sid) value)) (\<lambda>u.
       and_then (appendCommand srv (INCR (version_of sid))) (\<lambda>u.
       and_then (only_if (expiration \<noteq> 0)
                   (and_then (appendCommand srv (EXPIREAT (SPREDIS_SID sid) expiration)) (\<lambda>u.
                    appendCommand srv (EXPIREAT (version_of sid) expiration)))) (\<lambda>u.
       and_then (appendCommand srv EXEC) (\<lambda>u.
       and_then (getNextFromConnection (Some REDIS_REPLY_STATUS)) (\<lambda>r.
       and_then (getNextFromConnection (Some REDIS_REPLY_STATUS)) (\<lambda>r.
       and_then (getNextFromConnection (Some REDIS_REPLY_STATUS)) (\<lambda>r.
       and_then (only_if (expiration \<noteq> 0)
                   (and_then (getNextFromConnection (Some REDIS_REPLY_STATUS)) (\<lambda>r. ret ()))) (\<lambda>u.
       and_then (only_if (expiration \<noteq> 0)
                   (and_then (getNextFromConnection (Some REDIS_REPLY_STATUS)) (\<lambda>r. ret ()))) (\<lambda>u.
       and_then (getNextFromConnection None) (\<lambda>reply.
       lift (updateVersioned_results expiration currentVersion reply)))))))))))))))"

text \<open>The loop, with \<open>optimisticConcurrencyRetryCount = 3\<close>.\<close>

function updateVersioned_loop ::
  "'s server \<Rightarrow> StorageId \<Rightarrow> string \<Rightarrow> longlong \<Rightarrow> 32 word \<Rightarrow> nat
     \<Rightarrow> ('s RedisConnection, 32 word) action" where
  "updateVersioned_loop srv sid value expiration ifVersion tryCount c =
     (if tryCount < 3 then
        (case updateVersioned_try srv sid value expiration ifVersion c of
           (Inl e, c') \<Rightarrow> (Inl e, c')
         | (Inr (Some v), c') \<Rightarrow> (Inr v, c')
         | (Inr None, c') \<Rightarrow>
             updateVersioned_loop srv sid value expiration ifVersion (tryCount + 1) c')
      else (Inr 0, c))"
  by pat_completeness auto
termination
  by (relation "measure (\<lambda>(srv, sid, value, expiration, ifVersion, tryCount, c). 3 - tryCount)") auto

definition updateVersioned ::
  "'s server \<Rightarrow> StorageId \<Rightarrow> string \<Rightarrow> longlong \<Rightarrow> 32 word
     \<Rightarrow> ('s RedisConnection, 32 word) action" where
  "updateVersioned srv sid value expiration ifVersion =
     updateVersioned_loop srv sid value expiration ifVersion 0"

declare updateVersioned_loop.simps [simp del]

section \<open>Two servers for the connection\<close>

text \<open>
  The first server knows nothing of the commands: it answers them from a script, in
  order, and records what it was sent. Whatever a real server and the other clients do,
  one connection sees some such script.
\<close>

definition scripted :: "(redisReply option list \<times> command list) server" where
  "scripted cmd s =
     (case fst s of
        [] \<Rightarrow> (None, ([], snd s @ [cmd]))
      | r # rs \<Rightarrow> (r, (rs, snd s @ [cmd])))"

text \<open>
  The second is the Redis server as its documentation describes the commands above, for
  one connection. It is not code of the repository. A key holds a string and an optional
  absolute expiration; the passing of time is not modelled, so no key expires. \<open>MULTI\<close>
  queues commands until \<open>EXEC\<close>, which runs them in order, or answers \<open>nil\<close> and runs
  nothing when a watched key was written since \<open>WATCH\<close>.
\<close>

type_synonym keyspace = "string \<rightharpoonup> string \<times> longlong option"

record redis =
  db :: keyspace
  queued :: "command list option"
  watching :: "string list"
  dirty :: bool

function digits_of :: "nat \<Rightarrow> string" where
  "digits_of n =
     (if n < 10 then [''0123456789'' ! n]
      else digits_of (n div 10) @ [''0123456789'' ! (n mod 10)])"
  by pat_completeness auto
termination
  by (relation "measure id") auto

declare digits_of.simps [simp del]

definition string_of_int :: "int \<Rightarrow> string" where
  "string_of_int i = (if i < 0 then CHR ''-'' # digits_of (nat (- i)) else digits_of (nat i))"

text \<open>The server reads an integer strictly: digits only, no leading zero, 64 bits.\<close>

definition canonical :: "string \<Rightarrow> bool" where
  "canonical ds = (ds \<noteq> [] \<and> list_all isdigit ds \<and> (length ds = 1 \<or> hd ds \<noteq> CHR ''0''))"

definition string2ll :: "string \<Rightarrow> int option" where
  "string2ll s =
     (case s of
        [] \<Rightarrow> None
      | c # cs \<Rightarrow>
          if c = CHR ''-'' then
            (if canonical cs \<and> cs \<noteq> ''0'' \<and> decimal cs \<le> 2 ^ 63
             then Some (- int (decimal cs)) else None)
          else
            (if canonical s \<and> decimal s < 2 ^ 63 then Some (int (decimal s)) else None))"

fun unlink_keys :: "string list \<Rightarrow> keyspace \<Rightarrow> longlong \<times> keyspace" where
  "unlink_keys [] d = (0, d)"
| "unlink_keys (k # ks) d =
     (case unlink_keys ks (d(k := None)) of
        (n, d') \<Rightarrow> ((if d k = None then n else n + 1), d'))"

fun apply_command :: "command \<Rightarrow> keyspace \<Rightarrow> redisReply \<times> keyspace" where
  "apply_command (SET_NX_EXAT k v t) d =
     (if sint t \<le> 0 then (Error_reply ''ERR invalid expire time in set command'', d)
      else (case d k of
              Some old \<Rightarrow> (Nil_reply, d)
            | None \<Rightarrow> (Status_reply ''OK'', d(k \<mapsto> (v, Some t)))))"
| "apply_command (SET_XX_KEEPTTL k v) d =
     (case d k of
        None \<Rightarrow> (Nil_reply, d)
      | Some (old, ttl) \<Rightarrow> (Status_reply ''OK'', d(k \<mapsto> (v, ttl))))"
| "apply_command (GET k) d =
     (case d k of
        None \<Rightarrow> (Nil_reply, d)
      | Some (v, ttl) \<Rightarrow> (String_reply v, d))"
| "apply_command (EXPIRETIME k) d =
     (case d k of
        None \<Rightarrow> (Integer_reply (- 2), d)
      | Some (v, None) \<Rightarrow> (Integer_reply (- 1), d)
      | Some (v, Some t) \<Rightarrow> (Integer_reply t, d))"
| "apply_command (INCR k) d =
     (case d k of
        None \<Rightarrow> (Integer_reply 1, d(k \<mapsto> (''1'', None)))
      | Some (v, ttl) \<Rightarrow>
          (case string2ll v of
             None \<Rightarrow> (Error_reply ''ERR value is not an integer or out of range'', d)
           | Some n \<Rightarrow>
               if n = 2 ^ 63 - 1
               then (Error_reply ''ERR increment or decrement would overflow'', d)
               else (Integer_reply (of_int (n + 1)), d(k \<mapsto> (string_of_int (n + 1), ttl)))))"
| "apply_command (EXPIREAT k t) d =
     (case d k of
        None \<Rightarrow> (Integer_reply 0, d)
      | Some (v, ttl) \<Rightarrow> (Integer_reply 1, d(k \<mapsto> (v, Some t))))"
| "apply_command (UNLINK ks) d =
     (case unlink_keys ks d of (n, d') \<Rightarrow> (Integer_reply n, d'))"
| "apply_command cmd d = (Error_reply ''ERR unknown command'', d)"

fun run_queue :: "command list \<Rightarrow> keyspace \<Rightarrow> redisReply list \<times> keyspace" where
  "run_queue [] d = ([], d)"
| "run_queue (cmd # cmds) d =
     (case apply_command cmd d of
        (r, d') \<Rightarrow> (case run_queue cmds d' of (rs, d'') \<Rightarrow> (r # rs, d'')))"

definition redis_server :: "redis server" where
  "redis_server cmd s =
     (case queued s of
        Some q \<Rightarrow>
          (case cmd of
             EXEC \<Rightarrow>
               if dirty s
               then (Some Nil_reply, s\<lparr>queued := None, watching := [], dirty := False\<rparr>)
               else (case run_queue q (db s) of
                       (rs, d') \<Rightarrow>
                         (Some (Array_reply rs),
                          s\<lparr>db := d', queued := None, watching := [], dirty := False\<rparr>))
           | MULTI \<Rightarrow> (Some (Error_reply ''ERR MULTI calls can not be nested''), s)
           | WATCH k \<Rightarrow> (Some (Error_reply ''ERR WATCH inside MULTI is not allowed''), s)
           | other \<Rightarrow> (Some (Status_reply ''QUEUED''), s\<lparr>queued := Some (q @ [cmd])\<rparr>))
      | None \<Rightarrow>
          (case cmd of
             MULTI \<Rightarrow> (Some (Status_reply ''OK''), s\<lparr>queued := Some []\<rparr>)
           | EXEC \<Rightarrow> (Some (Error_reply ''ERR EXEC without MULTI''), s)
           | WATCH k \<Rightarrow> (Some (Status_reply ''OK''), s\<lparr>watching := k # watching s\<rparr>)
           | UNWATCH \<Rightarrow> (Some (Status_reply ''OK''), s\<lparr>watching := [], dirty := False\<rparr>)
           | other \<Rightarrow>
               (case apply_command cmd (db s) of (r, d') \<Rightarrow> (Some r, s\<lparr>db := d'\<rparr>))))"

text \<open>
  Another client writes a key: a watch on that key becomes dirty. \<open>answers\<close> gives the
  replies of a server to a list of commands, one after the other.
\<close>

definition other_client_sets :: "string \<Rightarrow> string \<Rightarrow> redis \<Rightarrow> redis" where
  "other_client_sets k v s =
     s\<lparr>db := (db s)(k \<mapsto> (v, None)), dirty := (dirty s \<or> k \<in> set (watching s))\<rparr>"

fun answers :: "'s server \<Rightarrow> command list \<Rightarrow> 's \<Rightarrow> redisReply option list \<times> 's" where
  "answers srv [] s = ([], s)"
| "answers srv (cmd # cmds) s =
     (case srv cmd s of
        (r, s') \<Rightarrow> (case answers srv cmds s' of (rs, s'') \<Rightarrow> (r # rs, s'')))"

text \<open>A connection that has just been opened to a server holding the keys \<open>d\<close>.\<close>

definition fresh :: "keyspace \<Rightarrow> redis RedisConnection" where
  "fresh d =
     \<lparr>m_redis = \<lparr>db = d, queued = None, watching = [], dirty = False\<rparr>, unread = []\<rparr>"

text \<open>
  What the Redis server sends during one round of \<open>updateVersioned\<close> whose \<open>EXEC\<close> is
  aborted because another client wrote the watched version key: the answers to \<open>WATCH\<close>,
  \<open>GET\<close> (the version string \<open>s\<close>), \<open>MULTI\<close>, the queued commands, and \<open>nil\<close>.
\<close>

definition aborted_round :: "longlong \<Rightarrow> string \<Rightarrow> redisReply option list" where
  "aborted_round expiration s =
     [Some (Status_reply ''OK''), Some (String_reply s), Some (Status_reply ''OK''),
      Some (Status_reply ''QUEUED''), Some (Status_reply ''QUEUED'')]
     @ (if expiration \<noteq> 0
        then [Some (Status_reply ''QUEUED''), Some (Status_reply ''QUEUED'')] else [])
     @ [Some Nil_reply]"

text \<open>The commands a round of \<open>updateVersioned\<close> sends when the version matches.\<close>

definition round_commands :: "StorageId \<Rightarrow> string \<Rightarrow> longlong \<Rightarrow> command list" where
  "round_commands sid value expiration =
     [WATCH (version_of sid), GET (version_of sid), MULTI,
      SET_XX_KEEPTTL (SPREDIS_SID sid) value, INCR (version_of sid)]
     @ (if expiration \<noteq> 0
        then [EXPIREAT (SPREDIS_SID sid) expiration, EXPIREAT (version_of sid) expiration]
        else [])
     @ [EXEC]"

section \<open>redis-cluster.h, redis-cluster.cpp: the cluster router\<close>

text \<open>
  The slot map is a flat map sorted by \<open>ClusterCompareLess\<close>, a list of entries here. A
  \<open>const ClusterNode*\<close> is null, or the address of the node stored in an entry of
  \<open>m_cluster_map\<close>, or the address of the node stored in an entry of \<open>previous_map\<close>, the
  copy of the slot map that \<open>resetSlotsCacheUnguarded\<close> walks through. The copy is an
  object of its own: its entries have other addresses than the entries of the slot map,
  whatever they hold. Within one of the two maps the keys are distinct, so an entry stands
  for its address there. The connection cache is keyed by such pointers and compares
  addresses; it is emptied at the start of every rebuild, and the slot map changes only
  in the constructor and during a rebuild, so a cached address of the slot map is never
  that of an entry inserted later. The address of a copy that has been destroyed is taken
  to differ from every address of the slot map. The read and write locks of the router
  are not modelled: a call runs alone.
\<close>

type_synonym cluster_map_type = "(ClusterRange \<times> ClusterNode) list"

datatype node_ptr =
    Null
  | Cluster_map_entry "ClusterRange \<times> ClusterNode"
  | Previous_map_entry "ClusterRange \<times> ClusterNode"

text \<open>The node a pointer leads to, none for the null pointer.\<close>

fun pointee :: "node_ptr \<Rightarrow> ClusterNode option" where
  "pointee Null = None"
| "pointee (Cluster_map_entry entry) = Some (snd entry)"
| "pointee (Previous_map_entry entry) = Some (snd entry)"

record 'c RedisCluster =
  m_connection_map :: "(node_ptr \<times> 'c) list"
  m_cluster_map :: cluster_map_type
  m_config :: RedisConfig

text \<open>
  What lies outside the router is a parameter of the model, acting on a state \<open>'w\<close> of
  its own: \<open>ClusterNode::connect\<close> (declared in \<open>cluster-node.h\<close>; it gives a new
  connection or throws), the reply a connection gets to \<open>CLUSTER SLOTS\<close> (\<open>None\<close>: a
  null reply), and \<open>usleep\<close>.
\<close>

record ('w, 'c) network =
  connect :: "ClusterNode \<Rightarrow> 'w \<Rightarrow> (error + 'c) \<times> 'w"
  cluster_slots :: "'c \<Rightarrow> 'w \<Rightarrow> redisReply option \<times> 'w"
  usleep :: "uint \<Rightarrow> 'w \<Rightarrow> 'w"

text \<open>
  \<open>insert_or_assign\<close> of the flat map: two keys are the same key when neither is less
  than the other. The container finds the place by binary search; on a sorted list the
  linear scan finds the same place.
\<close>

fun insert_or_assign :: "ClusterRange \<Rightarrow> ClusterNode \<Rightarrow> cluster_map_type \<Rightarrow> cluster_map_type" where
  "insert_or_assign k v [] = [(k, v)]"
| "insert_or_assign k v ((k', v') # m) =
     (if operator_less k' k then (k', v') # insert_or_assign k v m
      else if operator_less k k' then (k, v) # (k', v') # m
      else (k', v) # m)"

text \<open>\<open>RedisCluster::CacheSetter::operator()\<close>.\<close>

definition CacheSetter :: "ClusterRange \<Rightarrow> ClusterNode \<Rightarrow> 'c RedisCluster \<times> 'w \<Rightarrow> 'c RedisCluster \<times> 'w" where
  "CacheSetter slots node =
     (\<lambda>(cluster, w).
        (cluster\<lparr>m_cluster_map := insert_or_assign slots node (m_cluster_map cluster)\<rparr>, w))"

text \<open>
  \<open>RedisConnection::iterateSlots\<close>, given the reply to \<open>CLUSTER SLOTS\<close>. The wrapper's
  \<open>ensureType\<close> dereferences the reply, so a null reply is undefined behaviour. The two
  integers of a row are read without a type check and narrowed through \<open>int\<close> to
  \<open>unsigned int\<close>; the second size check of the source tests the row again, not the node
  list, so a node list with fewer than two elements is read out of range.
\<close>

fun iterateSlots_rows ::
  "(ClusterRange \<Rightarrow> ClusterNode \<Rightarrow> 's \<Rightarrow> 's) \<Rightarrow> redisReply list \<Rightarrow> ('s, unit) action" where
  "iterateSlots_rows callback [] = ret ()"
| "iterateSlots_rows callback (rangeEntry # rest) =
     and_then (lift (ensureType REDIS_REPLY_ARRAY rangeEntry)) (\<lambda>u.
     if r_elements rangeEntry < 3 then throw IOException
     else
       and_then (lift (ClusterRange_ctor
                         (ucast (r_integer (r_element rangeEntry ! 0)))
                         (ucast (r_integer (r_element rangeEntry ! 1))))) (\<lambda>slots.
       and_then (lift (ensureType REDIS_REPLY_ARRAY (r_element rangeEntry ! 2))) (\<lambda>u.
       if r_elements rangeEntry < 2 then throw IOException
       else
         and_then (lift (element_at (r_element rangeEntry ! 2) 0)) (\<lambda>host.
         and_then (lift (element_at (r_element rangeEntry ! 2) 1)) (\<lambda>port.
         and_then (\<lambda>s. (Inr (),
                     callback slots \<lparr>m_host = r_str host, m_port = ucast (r_integer port)\<rparr> s)) (\<lambda>u.
         iterateSlots_rows callback rest))))))"

definition iterateSlots ::
  "redisReply option \<Rightarrow> (ClusterRange \<Rightarrow> ClusterNode \<Rightarrow> 's \<Rightarrow> 's) \<Rightarrow> ('s, unit) action" where
  "iterateSlots reply callback =
     (case reply of
        None \<Rightarrow> throw UndefinedBehaviour
      | Some r \<Rightarrow>
          and_then (lift (ensureType REDIS_REPLY_ARRAY r)) (\<lambda>u.
          iterateSlots_rows callback (r_element r)))"

text \<open>A connection of the router sends \<open>CLUSTER SLOTS\<close> and feeds the reply to \<open>CacheSetter\<close>.\<close>

definition configure_from ::
  "('w, 'c) network \<Rightarrow> 'c \<Rightarrow> ('c RedisCluster \<times> 'w, unit) action" where
  "configure_from net conn =
     (\<lambda>(cluster, w).
        case cluster_slots net conn w of
          (reply, w') \<Rightarrow> iterateSlots reply CacheSetter (cluster, w'))"

text \<open>
  The constructor \<open>RedisCluster::RedisCluster\<close>. The loop over the seeds leaves at the
  first seed whose \<open>try\<close> block completes; both handlers only log, and they catch every
  exception. After the loop the constructor returns.
\<close>

fun RedisCluster_seeds ::
  "('w, 'c) network \<Rightarrow> ClusterNode list \<Rightarrow> ('c RedisCluster \<times> 'w, unit) action" where
  "RedisCluster_seeds net [] = ret ()"
| "RedisCluster_seeds net (node # nodes) =
     (\<lambda>s. case and_then (\<lambda>(cluster, w). case connect net node w of (r, w') \<Rightarrow> (r, (cluster, w')))
                 (\<lambda>conn. configure_from net conn) s of
             (Inr u, s') \<Rightarrow> (Inr (), s')
           | (Inl e, s') \<Rightarrow>
               if e = UndefinedBehaviour then (Inl e, s')
               else RedisCluster_seeds net nodes s')"

definition RedisCluster_ctor ::
  "('w, 'c) network \<Rightarrow> RedisConfig \<Rightarrow> 'w \<Rightarrow> (error + unit) \<times> 'c RedisCluster \<times> 'w" where
  "RedisCluster_ctor net config w =
     RedisCluster_seeds net (initialNodes config)
       (\<lparr>m_connection_map = [], m_cluster_map = [], m_config = config\<rparr>, w)"

text \<open>
  \<open>m_cluster_map.find(id)\<close>: the flat map's lower bound by binary search with the
  comparator on a range and an id, then the test that the id is not less than the entry
  found. The result is an index, the length of the list for \<open>end()\<close>.
\<close>

function lower_bound :: "cluster_map_type \<Rightarrow> StorageId \<Rightarrow> nat \<Rightarrow> nat \<Rightarrow> nat" where
  "lower_bound m sid first len =
     (if len = 0 then first
      else
        (let step = len div 2; middle = first + step
         in if range_less_id (fst (m ! middle)) sid
            then lower_bound m sid (middle + 1) (len - step - 1)
            else lower_bound m sid first step))"
  by pat_completeness auto
termination
  by (relation "measure (\<lambda>(m, sid, first, len). len)") auto

declare lower_bound.simps [simp del]

definition cluster_map_find :: "cluster_map_type \<Rightarrow> StorageId \<Rightarrow> nat" where
  "cluster_map_find m sid =
     (let it = lower_bound m sid 0 (length m)
      in if it < length m \<and> id_less_range sid (fst (m ! it)) then length m else it)"

text \<open>\<open>RedisCluster::findNodeEntryUnguarded(const StorageId&)\<close>.\<close>

definition findNodeEntryUnguarded :: "'c RedisCluster \<Rightarrow> StorageId \<Rightarrow> node_ptr" where
  "findNodeEntryUnguarded cluster sid =
     (let it = cluster_map_find (m_cluster_map cluster) sid
      in if it = length (m_cluster_map cluster) then Null
         else Cluster_map_entry (m_cluster_map cluster ! it))"

text \<open>
  \<open>RedisCluster::dispatchConnectionUnguarded\<close>. On a cache miss the node is
  dereferenced to connect: with a null pointer that is undefined behaviour.
\<close>

definition dispatchConnectionUnguarded ::
  "('w, 'c) network \<Rightarrow> node_ptr \<Rightarrow> ('c RedisCluster \<times> 'w, 'c) action" where
  "dispatchConnectionUnguarded net node =
     (\<lambda>(cluster, w).
        case map_of (m_connection_map cluster) node of
          Some conn \<Rightarrow> (Inr conn, (cluster, w))
        | None \<Rightarrow>
            (case pointee node of
               None \<Rightarrow> (Inl UndefinedBehaviour, (cluster, w))
             | Some target \<Rightarrow>
                 (case connect net target w of
                    (Inl e, w') \<Rightarrow> (Inl e, (cluster, w'))
                  | (Inr conn, w') \<Rightarrow>
                      (Inr conn,
                       (cluster\<lparr>m_connection_map := (node, conn) # m_connection_map cluster\<rparr>,
                        w')))))"

text \<open>
  \<open>RedisCluster::resetSlotsCacheUnguarded\<close>, with \<open>std::any_of\<close> over the previous map
  and \<open>CacheReseter\<close> as its predicate. \<open>CacheReseter\<close> asks for a connection with the
  address of an entry of the previous map, and the connection is cached under it.
\<close>

fun any_of_CacheReseter ::
  "('w, 'c) network \<Rightarrow> cluster_map_type \<Rightarrow> ('c RedisCluster \<times> 'w, bool) action" where
  "any_of_CacheReseter net [] = ret False"
| "any_of_CacheReseter net (entry # rest) =
     (\<lambda>s. case and_then (dispatchConnectionUnguarded net (Previous_map_entry entry))
                 (\<lambda>conn. configure_from net conn) s of
             (Inr u, s') \<Rightarrow> (Inr True, s')
           | (Inl e, s') \<Rightarrow>
               if e = UndefinedBehaviour then (Inl e, s')
               else any_of_CacheReseter net rest s')"

definition resetSlotsCacheUnguarded ::
  "('w, 'c) network \<Rightarrow> ('c RedisCluster \<times> 'w, unit) action" where
  "resetSlotsCacheUnguarded net =
     (\<lambda>(cluster, w).
        case any_of_CacheReseter net (m_cluster_map cluster)
               (cluster\<lparr>m_connection_map := [], m_cluster_map := []\<rparr>, w) of
          (Inl e, s) \<Rightarrow> (Inl e, s)
        | (Inr success, s) \<Rightarrow>
            if success then (Inr (), s) else (Inl XMLToolingException, s))"

text \<open>
  \<open>RedisCluster::wrappedCall\<close>. The body of the function-try-block is
  \<open>wrappedCall_body\<close>; the two handlers catch \<open>ConnectionLostException\<close> and
  \<open>RedirectedException\<close> and do the same. \<open>fn\<close> is the storage operation bound to
  its arguments, run on the connection it is given.
\<close>

definition wrappedCall_body ::
  "('w, 'c) network \<Rightarrow> ('c \<Rightarrow> 'w \<Rightarrow> (error + 'r) \<times> 'w) \<Rightarrow> StorageId
     \<Rightarrow> ('c RedisCluster \<times> 'w, 'r) action" where
  "wrappedCall_body net fn sid =
     and_then (\<lambda>(cluster, w). (Inr (findNodeEntryUnguarded cluster sid), (cluster, w))) (\<lambda>node.
     and_then (dispatchConnectionUnguarded net node) (\<lambda>conn.
     (\<lambda>(cluster, w). case fn conn w of (r, w') \<Rightarrow> (r, (cluster, w')))))"

fun caught :: "error \<Rightarrow> bool" where
  "caught ConnectionLostException = True"
| "caught (RedirectedException host port) = True"
| "caught e = False"

function wrappedCall ::
  "('w, 'c) network \<Rightarrow> ('c \<Rightarrow> 'w \<Rightarrow> (error + 'r) \<times> 'w) \<Rightarrow> StorageId \<Rightarrow> uint
     \<Rightarrow> ('c RedisCluster \<times> 'w, 'r) action" where
  "wrappedCall net fn sid recurse s =
     (case wrappedCall_body net fn sid s of
        (Inr r, s') \<Rightarrow> (Inr r, s')
      | (Inl e, s') \<Rightarrow>
          if caught e then
            (case tryWaitWithRetryNumber (m_config (fst s')) recurse of
               Inl undefined_shift \<Rightarrow> (Inl undefined_shift, s')
             | Inr (False, slept) \<Rightarrow> (Inl e, s')
             | Inr (True, slept) \<Rightarrow>
                 (case resetSlotsCacheUnguarded net
                         (fst s', (case slept of None \<Rightarrow> snd s' | Some us \<Rightarrow> usleep net us (snd s'))) of
                    (Inl e', s'') \<Rightarrow> (Inl e', s'')
                  | (Inr u, s'') \<Rightarrow> wrappedCall net fn sid (recurse + 1) s''))
          else (Inl e, s'))"
  by pat_completeness auto
termination
  by (relation "measure (\<lambda>(net, fn, sid, recurse, s). 32 - unat recurse)")
     (auto simp: tryWaitWithRetryNumber_def Let_def unat_word_ariths split: if_splits)

declare wrappedCall.simps [simp del]

text \<open>A network on which no node can be reached: every \<open>connect\<close> throws.\<close>

definition unreachable :: "('w, 'c) network" where
  "unreachable =
     \<lparr>connect = (\<lambda>node w. (Inl ConnectionLostException, w)),
      cluster_slots = (\<lambda>conn w. (None, w)),
      usleep = (\<lambda>us w. w)\<rparr>"

text \<open>
  A network for the start-up scenario of the specification: the node \<open>Z\<close> can be
  reached and reports two slot ranges, the node \<open>Y\<close> can be reached and answers
  \<open>CLUSTER SLOTS\<close> with an error, every other node refuses the connection. A connection
  is named by the node it leads to.
\<close>

definition seed_failover :: "('w, ClusterNode) network" where
  "seed_failover =
     \<lparr>connect = (\<lambda>node w.
        if m_host node = ''Z'' \<or> m_host node = ''Y'' then (Inr node, w)
        else (Inl ConnectionLostException, w)),
      cluster_slots = (\<lambda>conn w.
        if m_host conn = ''Z'' then
          (Some (Array_reply
             [Array_reply [Integer_reply 0, Integer_reply 8191,
                           Array_reply [String_reply ''Z'', Integer_reply 6379]],
              Array_reply [Integer_reply 8192, Integer_reply 16383,
                           Array_reply [String_reply ''W'', Integer_reply 6380]]]), w)
        else (Some (Error_reply ''ERR This instance has cluster support disabled''), w)),
      usleep = (\<lambda>us w. w)\<rparr>"

section \<open>Properties of the CRC16 accumulator and of the hash slot\<close>

lemma crc16_shift_xor: "crc16_shift (a XOR b) = crc16_shift a XOR crc16_shift b"
  by (auto simp: crc16_shift_def bit_xor_iff push_bit_xor ac_simps)

lemma crc16_shift_funpow_xor:
  "(crc16_shift ^^ n) (a XOR b) = (crc16_shift ^^ n) a XOR (crc16_shift ^^ n) b"
  by (induction n) (simp_all add: crc16_shift_xor)

text \<open>Eight shifts move a value below 256 up by one byte without touching the polynomial.\<close>

lemma crc16_shift_funpow_low:
  assumes "take_bit 8 x = x" and "k \<le> 8"
  shows "(crc16_shift ^^ k) x = push_bit k x"
  using assms(2)
proof (induction k)
  case 0
  show ?case by simp
next
  case (Suc k)
  have "\<not> bit x (15 - k)"
  proof -
    have "bit x (15 - k) = bit (take_bit 8 x) (15 - k)" by (simp add: assms(1))
    also have "\<dots> = False"
    proof -
      have "\<not> 15 - k < 8" using Suc.prems by arith
      then show ?thesis by (simp only: bit_take_bit_iff) simp
    qed
    finally show ?thesis by simp
  qed
  then have "\<not> bit (push_bit k x) 15"
    by (simp add: bit_push_bit_iff)
  then show ?case using Suc
    by (simp add: crc16_shift_def push_bit_Suc mult.commute push_bit_eq_mult)
qed

lemma crc16_xmodem_byte_table:
  "crc16_xmodem_byte c b =
     (crc16_shift ^^ 8) (push_bit 8 (drop_bit 8 c XOR of_char b)) XOR push_bit 8 (take_bit 8 c)"
proof -
  have "c XOR push_bit 8 (of_char b) = push_bit 8 (drop_bit 8 c XOR of_char b) XOR take_bit 8 c"
    by (rule bit_word_eqI) (auto simp: bit_simps)
  then show ?thesis
    by (simp add: crc16_xmodem_byte_def crc16_shift_funpow_xor crc16_shift_funpow_low)
qed

lemma Crc16Constants_nth:
  "n < 256 \<Longrightarrow>
   Crc16Constants ! n = ucast ((crc16_shift ^^ 8) (push_bit 8 (of_nat n :: 16 word)))"
  by (simp add: Crc16Constants_def)

lemma index_bound: "unat ((w :: uint) AND 0xFF) < 256"
proof -
  have "unat (w AND 0xFF) \<le> unat (0xFF :: uint)"
    by (rule word_and_le1 [THEN word_le_nat_alt [THEN iffD1]])
  then show ?thesis by simp
qed

lemma bit_of_char_nat: "bit (of_char b :: nat) n \<longleftrightarrow> n < 8 \<and> bit (of_char b :: nat) n"
proof -
  have "take_bit 8 (of_char b :: nat) = of_char b"
    by (simp add: take_bit_eq_mod)
  then have "bit (of_char b :: nat) n = bit (take_bit 8 (of_char b :: nat)) n"
    by simp
  then show ?thesis
    by (simp only: bit_take_bit_iff)
qed

lemma bit_of_char_word:
  "bit (of_char b :: 'a::len word) n \<longleftrightarrow> n < LENGTH('a) \<and> n < 8 \<and> bit (of_char b :: nat) n"
proof -
  have "(of_char b :: 'a word) = of_nat (of_char b)"
    by (simp add: of_nat_of_char)
  then have "bit (of_char b :: 'a word) n = bit (of_nat (of_char b) :: 'a word) n"
    by simp
  also have "\<dots> \<longleftrightarrow> n < LENGTH('a) \<and> bit (of_char b :: nat) n"
    by (simp add: bit_of_nat_iff)
  finally show ?thesis using bit_of_char_nat [of b n] by blast
qed

lemma byte_masks: "(0xFF :: 'a::len word) = mask 8" "(0xFFFF :: 'b::len word) = mask 16"
  by (simp_all add: mask_eq_exp_minus_1)

text \<open>The sign extension of the byte does not reach the table index.\<close>

lemma index_eq:
  "(of_nat (unat ((drop_bit 8 acc XOR scast (of_char b :: 8 word)) AND (0xFF :: uint))) :: 16 word)
     = drop_bit 8 (ucast acc) XOR of_char b"
  by (rule bit_word_eqI) (auto simp: byte_masks bit_simps bit_of_char_word)

lemma low_byte_eq:
  "(ucast (push_bit 8 (take_bit 8 (ucast (acc :: uint) :: 16 word))) :: uint)
     = push_bit 8 acc AND 0xFFFF"
  by (rule bit_word_eqI) (auto simp: byte_masks bit_simps)

lemma ucast_xor_16_32: "(ucast (x XOR y :: 16 word) :: uint) = ucast x XOR ucast y"
  by (rule bit_word_eqI) (auto simp: bit_simps)

lemma ucast_ucast_16: "(ucast (ucast (w :: 16 word) :: uint) :: 16 word) = w"
  by (rule bit_word_eqI) (auto simp: bit_simps)

text \<open>One step of the table-driven accumulator is one byte of the bitwise CRC.\<close>

lemma RedisCrc16_op_refines:
  "RedisCrc16_op acc b = ucast (crc16_xmodem_byte (ucast acc) b)"
proof -
  let ?i = "unat ((drop_bit 8 acc XOR scast (of_char b :: 8 word)) AND (0xFF :: uint))"
  have "Crc16Constants ! ?i = ucast ((crc16_shift ^^ 8) (push_bit 8 (of_nat ?i :: 16 word)))"
    by (rule Crc16Constants_nth) (rule index_bound)
  then have "RedisCrc16_op acc b =
      (push_bit 8 acc AND 0xFFFF)
        XOR ucast ((crc16_shift ^^ 8) (push_bit 8 (drop_bit 8 (ucast acc) XOR of_char b :: 16 word)))"
    by (simp only: RedisCrc16_op_def index_eq)
  also have "\<dots> = ucast (crc16_xmodem_byte (ucast acc) b)"
    by (simp only: crc16_xmodem_byte_table ucast_xor_16_32 low_byte_eq xor.commute)
  finally show ?thesis .
qed

lemma calculate_refines:
  "ucast (calculate bs init) = foldl crc16_xmodem_byte (ucast init) bs"
  unfolding calculate_def
  by (induction bs arbitrary: init) (simp_all add: RedisCrc16_op_refines ucast_ucast_16)

lemma take_bit_16_ucast: "take_bit 16 (ucast (w :: 16 word) :: uint) = ucast w"
  by (rule bit_word_eqI) (auto simp: bit_simps dest: bit_imp_le_length)

lemma calculate_16_bits:
  "take_bit 16 init = init \<Longrightarrow> take_bit 16 (calculate bs init) = calculate bs init"
  unfolding calculate_def
proof (induction bs arbitrary: init)
  case Nil
  then show ?case by simp
next
  case (Cons b bs)
  have "take_bit 16 (RedisCrc16_op init b) = RedisCrc16_op init b"
    by (simp only: RedisCrc16_op_refines take_bit_16_ucast)
  then show ?case using Cons.IH by simp
qed

lemma calculate_append: "calculate (xs @ ys) init = calculate ys (calculate xs init)"
  by (simp add: calculate_def)

lemma ucast_eq_take_bit_16: "(ucast (ucast (w :: uint) :: 16 word) :: uint) = take_bit 16 w"
  by (rule bit_word_eqI) (auto simp: bit_simps)

lemma calculate_Initial: "calculate bs Initial = ucast (crc16_xmodem bs)"
proof -
  have "take_bit 16 (calculate bs Initial) = calculate bs Initial"
    by (rule calculate_16_bits) (simp add: Initial_def)
  moreover have "(ucast (calculate bs Initial) :: 16 word) = crc16_xmodem bs"
    by (simp add: calculate_refines crc16_xmodem_def Initial_def)
  ultimately show ?thesis
    using ucast_eq_take_bit_16 [of "calculate bs Initial"] by simp
qed


lemma hashSlotUsing_concat:
  "hashSlotUsing sid
     = calculate (m_context sid @ '':'' @ m_prefix sid @ m_key sid) Initial mod HashSlotCount"
  by (simp only: hashSlotUsing_def Let_def calculate_append)


text \<open>Where \<open>char\<close> is unsigned the step is the same: the mask drops the sign extension.\<close>

lemma RedisCrc16_op_unsigned_char:
  "RedisCrc16_op accumulator byte =
     (push_bit 8 accumulator AND 0xFFFF)
       XOR Crc16Constants
             ! unat ((drop_bit 8 accumulator XOR ucast (of_char byte :: 8 word)) AND 0xFF)"
proof -
  have "(drop_bit 8 accumulator XOR scast (of_char byte :: 8 word)) AND (0xFF :: uint)
      = (drop_bit 8 accumulator XOR ucast (of_char byte :: 8 word)) AND 0xFF"
    by (rule bit_word_eqI) (auto simp: byte_masks bit_simps)
  then show ?thesis by (simp only: RedisCrc16_op_def)
qed

lemma crc16_xmodem_check_value: "crc16_xmodem ''123456789'' = 0x31C3"
  by code_simp

lemma crc16_xmodem_foo: "(ucast (crc16_xmodem ''foo'') :: uint) mod 16384 = 12182"
  by code_simp

text \<open>
  Claim C5. For every \<open>StorageId\<close> the computed hash slot is the CRC16-XMODEM (polynomial
  \<open>0x1021\<close>, initial value 0, no reflection, no final XOR) of the bytes context, colon,
  prefix, key, taken modulo 16384; feeding the pieces one after the other gives the CRC of
  their concatenation; the CRC of \<open>123456789\<close> is \<open>0x31C3\<close>, and the slot of \<open>foo\<close>
  is 12182.
\<close>

theorem hash_slot_is_crc16_xmodem:
  "hashSlotUsing sid
     = ucast (crc16_xmodem (m_context sid @ '':'' @ m_prefix sid @ m_key sid)) mod 16384
   \<and> calculate (xs @ ys) init = calculate ys (calculate xs init)
   \<and> calculate ''123456789'' Initial = 0x31C3
   \<and> calculate ''foo'' Initial mod HashSlotCount = 12182"
proof (intro conjI)
  show "hashSlotUsing sid
     = ucast (crc16_xmodem (m_context sid @ '':'' @ m_prefix sid @ m_key sid)) mod 16384"
    by (simp only: hashSlotUsing_concat calculate_Initial HashSlotCount_def)
  show "calculate (xs @ ys) init = calculate ys (calculate xs init)"
    by (rule calculate_append)
  show "calculate ''123456789'' Initial = 0x31C3"
    by (simp only: calculate_Initial crc16_xmodem_check_value) simp
  show "calculate ''foo'' Initial mod HashSlotCount = 12182"
    by (simp only: calculate_Initial HashSlotCount_def crc16_xmodem_foo)
qed

section \<open>Hash tags: the client's slot and the server's\<close>







text \<open>
  A context that begins with a closing brace leaves the tag empty; the server then hashes
  each key whole, and the data key and the version key part.
\<close>

lemma collocation_needs_the_tag:
  "slot_of_redis_key (SPREDIS_SID \<lparr>m_context = ''}b'', m_key = ''k'', m_prefix = ''''\<rparr>)
     \<noteq> slot_of_redis_key (version_of \<lparr>m_context = ''}b'', m_key = ''k'', m_prefix = ''''\<rparr>)"
proof -
  have "slot_of_redis_key ''{}b:k}'' = 13558"
    by code_simp
  moreover have "slot_of_redis_key ''version.of:{}b:k}'' = 1138"
    by code_simp
  ultimately show ?thesis by (simp add: SPREDIS_SID_def version_of_def)
qed

section \<open>Slot ranges\<close>

lemma word_mod_mod: "(x :: 'a::len word) mod y mod y = x mod y"
  by (simp add: word_unat_eq_iff unat_mod)

lemma compare_id_cases:
  "compare_id r sid =
     (if hashSlotUsing sid < m_start r then 1 else if m_end r < hashSlotUsing sid then -1 else 0)"
proof -
  have "hashSlotUsing sid mod 16384 = hashSlotUsing sid"
    by (simp only: hashSlotUsing_def Let_def HashSlotCount_def word_mod_mod)
  then show ?thesis by (simp add: compare_id_def Let_def)
qed

lemma operator_less_eq_is_less: "operator_less_eq a b = operator_less a b"
  by (simp add: operator_less_eq_def operator_less_def)

lemma operator_greater_eq_reflexive: "operator_greater_eq a a \<and> operator_eq a a"
  by (simp add: operator_greater_eq_def operator_eq_def compare_def)

text \<open>
  Claim C10. The claim asks that \<open>a <= b\<close> hold exactly when \<open>compare(a, b) \<le> 0\<close>, so that
  \<open>a <= a\<close> holds for every range. The header's \<open>operator<=\<close> tests \<open>compare(rhs) < 0\<close>:
  every range compares equal to itself, and \<open>a <= a\<close> is false.
\<close>

theorem operator_less_eq_irreflexive: "compare a a = 0 \<and> \<not> operator_less_eq a a"
  by (simp add: compare_def operator_less_eq_def)

section \<open>Back-off\<close>

text \<open>
  Where neither product wraps around and the shift is defined, the sleep is the one of the
  specification, and the router gives up exactly when the attempt exceeds \<open>maxRetries\<close>.
\<close>

lemma unat_shift_one:
  assumes "n < 32"
  shows "unat (push_bit n 1 :: uint) = 2 ^ n"
proof -
  have small: "(2 :: nat) ^ n < 2 ^ 32"
    using assms by (intro power_strict_increasing) auto
  have "(push_bit n 1 :: uint) = of_nat (2 ^ n)"
    by simp
  then have "unat (push_bit n 1 :: uint) = 2 ^ n mod 2 ^ LENGTH(32)"
    by (simp only: unat_of_nat)
  also have "\<dots> = 2 ^ n"
    using small by simp
  finally show ?thesis .
qed

lemma unat_mult_exact:
  "unat x * unat y < 2 ^ 32 \<Longrightarrow> unat (x * y :: uint) = unat x * unat y"
  using unat_mult_lem [of x y] by simp

lemma unat_min: "unat (min a b) = min (unat a) (unat (b :: 'a::len word))"
  by (simp add: min_def word_le_nat_alt)

lemma tryWaitWithRetryNumber_exact:
  assumes "retry \<le> maxRetries config" and "unat retry < 32"
    and "unat (baseWait config) * 2 ^ unat retry < 2 ^ 32"
    and "1000 * min (unat (baseWait config) * 2 ^ unat retry) (unat (waitTime (maxWait config)))
           < 2 ^ 32"
  shows "\<exists>us. tryWaitWithRetryNumber config retry = Inr (True, Some us)
           \<and> unat us = 1000 * min (unat (baseWait config) * 2 ^ unat retry)
                                 (unat (waitTime (maxWait config)))"
proof -
  define toWait where "toWait = baseWait config * push_bit (unat retry) 1"
  define usTrueWait where "usTrueWait = 1000 * min toWait (waitTime (maxWait config))"
  have shift: "unat (push_bit (unat retry) 1 :: uint) = 2 ^ unat retry"
    using assms(2) by (rule unat_shift_one)
  have toWait: "unat toWait = unat (baseWait config) * 2 ^ unat retry"
    unfolding toWait_def using assms(3) unat_mult_exact [of "baseWait config" "push_bit (unat retry) 1"]
    by (simp only: shift)
  have "unat (1000 :: uint) * unat (min toWait (waitTime (maxWait config))) < 2 ^ 32"
    using assms(4) by (simp only: unat_min toWait) simp
  then have "unat usTrueWait = unat (1000 :: uint) * unat (min toWait (waitTime (maxWait config)))"
    unfolding usTrueWait_def by (rule unat_mult_exact)
  then have us: "unat usTrueWait
      = 1000 * min (unat (baseWait config) * 2 ^ unat retry) (unat (waitTime (maxWait config)))"
    by (simp only: unat_min toWait) simp
  have "tryWaitWithRetryNumber config retry = Inr (True, Some usTrueWait)"
    using assms(1,2)
    by (simp add: tryWaitWithRetryNumber_def Let_def usTrueWait_def toWait_def not_less [symmetric]
        del: push_bit_of_1)
  with us show ?thesis by blast
qed

lemma waitTime_unbounded: "unat (waitTime 0) = 2 ^ 32 - 1"
  by (simp add: waitTime_def unsigned_minus_1_eq_mask mask_eq_exp_minus_1)

lemma tryWaitWithRetryNumber_gives_up:
  "maxRetries config < retry \<Longrightarrow> tryWaitWithRetryNumber config retry = Inr (False, None)"
  by (simp add: tryWaitWithRetryNumber_def)

lemma tryWaitWithRetryNumber_defaults:
  "tryWaitWithRetryNumber \<lparr>initialNodes = [], maxRetries = 5, baseWait = 500, maxWait = 0\<rparr> 5
     = Inr (True, Some 16000000)"
  by (simp add: tryWaitWithRetryNumber_def waitTime_def Let_def)

text \<open>
  Claim C9. The claim asks for a sleep of \<open>min(baseWait * 2^r, maxWait)\<close> milliseconds with
  exact arithmetic for all configured values. The product is computed in 32 bits: with a
  base of 500 ms capped at 60000 ms, attempt 30 does not sleep at all (500 * 2^30 wraps to
  0), and with a base of 500 ms and no cap, attempt 14 sleeps 3897032704 microseconds
  instead of 8192000000.
\<close>

theorem backoff_wraps_around:
  "tryWaitWithRetryNumber
      \<lparr>initialNodes = [], maxRetries = 30, baseWait = 500, maxWait = 60000\<rparr> 30
     = Inr (True, Some 0)
   \<and> tryWaitWithRetryNumber
      \<lparr>initialNodes = [], maxRetries = 14, baseWait = 500, maxWait = 0\<rparr> 14
     = Inr (True, Some 3897032704)"
  by (simp add: tryWaitWithRetryNumber_def waitTime_def Let_def)

section \<open>The error classifier\<close>

lemma unat_npos: "unat npos = 18446744073709551615"
  by (simp add: npos_def unsigned_minus_1_eq_mask mask_eq_exp_minus_1)

lemma handleCommandError_long:
  "10 < length err_str \<Longrightarrow> handleCommandError err_str = ConnectionLostException"
  by (simp add: handleCommandError_def)

lemma handleCommandError_CLUSTERDOWN:
  "handleCommandError (''CLUSTERDOWN'' @ rest) = ConnectionLostException"
  by (simp add: handleCommandError_def)

lemma handleCommandError_MOVED_well_formed:
  assumes "slot \<noteq> []" and "host \<noteq> []" and "port \<noteq> []"
  shows "handleCommandError (''MOVED '' @ slot @ '' '' @ host @ '':'' @ port)
           = ConnectionLostException"
proof -
  have "10 < length (''MOVED '' @ slot @ '' '' @ host @ '':'' @ port)"
    using assms by (cases slot; cases host; cases port) simp_all
  then show ?thesis by (rule handleCommandError_long)
qed

lemma handleCommandError_short:
  "length err_str \<le> 6 \<Longrightarrow> handleCommandError err_str = IOException"
  by (simp add: handleCommandError_def)

lemma handlePotentialMovedError_parses:
  "handlePotentialMovedError ''MOVED 7000 10.0.0.2:6379''
     = Some (RedirectedException ''10.0.0.2'' 6379)"
  by (simp add: handlePotentialMovedError_def Let_def string_find_def substr_def unat_npos
      stoul_def sign_and_digits_def isspace_def isdigit_def decimal_def)

text \<open>
  Claim C1. The claim asks that an error reply beginning with \<open>MOVED\<close> raise
  \<open>Redirected(host, port)\<close>, one beginning with \<open>CLUSTERDOWN\<close> raise \<open>ConnectionLost\<close>,
  and every other one raise \<open>Protocol\<close>. The classifier looks at the length of the error
  string first: every string longer than ten characters raises \<open>ConnectionLost\<close>, so a
  redirection (a well-formed one has at least eleven characters) and an ordinary error
  both do, and the parser of the redirection only sees strings of seven to ten
  characters.
\<close>

theorem error_classifier_goes_by_length:
  "handleCommandError ''MOVED 7000 10.0.0.2:6379'' = ConnectionLostException
   \<and> handleCommandError ''ERR unknown command'' = ConnectionLostException
   \<and> handleCommandError ''MOVED 1 :2'' = RedirectedException [] 2"
  by (simp add: handleCommandError_def handlePotentialMovedError_def Let_def string_find_def
      substr_def unat_npos stoul_def sign_and_digits_def isspace_def isdigit_def decimal_def)


section \<open>The storage operations\<close>

lemmas action_defs = and_then_def ret_def throw_def lift_def only_if_def appendCommand_def
  redisGetReply_def redisCommand_def getNextFromConnection_def throwIfErroneous_def ensureType_def

lemma keys_distinct: "SPREDIS_SID sid \<noteq> version_of sid" "version_of sid \<noteq> SPREDIS_SID sid"
  by (simp_all add: SPREDIS_SID_def version_of_def)

lemma set_creates_both_keys:
  assumes "queued (m_redis c) = None" and "unread c = []" and "\<not> dirty (m_redis c)"
    and "0 < sint expiration"
    and "db (m_redis c) (SPREDIS_SID sid) = None" and "db (m_redis c) (version_of sid) = None"
  shows "RedisConnection_set redis_server sid val expiration c
       = (Inr True,
          c\<lparr>m_redis := (m_redis c)
              \<lparr>db := (db (m_redis c))
                 (SPREDIS_SID sid \<mapsto> (val, Some expiration),
                  version_of sid \<mapsto> (''1'', Some expiration)),
               watching := [], dirty := False\<rparr>\<rparr>)"
  using assms
  by (simp add: RedisConnection_set_def set_results_def action_defs redis_server_def
      keys_distinct r_elements_def)

lemma set_existing_data_key:
  assumes "queued (m_redis c) = None" and "unread c = []" and "\<not> dirty (m_redis c)"
    and "0 < sint expiration"
    and "db (m_redis c) (SPREDIS_SID sid) = Some old"
  shows "fst (RedisConnection_set redis_server sid val expiration c) = Inr False"
    and "db (m_redis (snd (RedisConnection_set redis_server sid val expiration c))) (SPREDIS_SID sid)
           = Some old"
  using assms
  by (simp_all add: RedisConnection_set_def set_results_def action_defs redis_server_def
      keys_distinct r_elements_def split: option.splits)

lemma set_existing_data_key_only:
  assumes "queued (m_redis c) = None" and "unread c = []" and "\<not> dirty (m_redis c)"
    and "0 < sint expiration"
    and "db (m_redis c) (SPREDIS_SID sid) = Some old" and "db (m_redis c) (version_of sid) = None"
  shows "RedisConnection_set redis_server sid val expiration c
       = (Inr False,
          c\<lparr>m_redis := (m_redis c)
              \<lparr>db := (db (m_redis c))(version_of sid \<mapsto> (''1'', Some expiration)),
               watching := [], dirty := False\<rparr>\<rparr>)"
  using assms
  by (simp add: RedisConnection_set_def set_results_def action_defs redis_server_def
      keys_distinct r_elements_def)

lemma set_existing_version_key_only:
  assumes "queued (m_redis c) = None" and "unread c = []" and "\<not> dirty (m_redis c)"
    and "0 < sint expiration"
    and "db (m_redis c) (SPREDIS_SID sid) = None" and "db (m_redis c) (version_of sid) = Some old"
  shows "RedisConnection_set redis_server sid val expiration c
       = (Inr False,
          c\<lparr>m_redis := (m_redis c)
              \<lparr>db := (db (m_redis c))(SPREDIS_SID sid := None, version_of sid := None),
               watching := [], dirty := False\<rparr>\<rparr>)"
  using assms
  by (simp add: RedisConnection_set_def set_results_def action_defs redis_server_def
      keys_distinct r_elements_def fun_upd_twist)

text \<open>
  Claim C3. The claim asks that whenever exactly one of the two \<open>SET ... NX\<close> succeeded,
  the stray key be unlinked before \<open>false\<close> is returned. When \<open>EXEC\<close> reports that the
  data key existed (\<open>nil\<close>) and the version key was set (\<open>OK\<close>), \<open>set\<close> returns
  \<open>false\<close> at once and sends no \<open>UNLINK\<close>; on the Redis model, a store holding the data
  key alone ends up with a version key next to the old value.
\<close>

theorem set_leaves_stray_version_key:
  "RedisConnection_set scripted sid val expiration
      \<lparr>m_redis = ([Some (Status_reply ''OK''), Some (Status_reply ''QUEUED''),
                   Some (Status_reply ''QUEUED''),
                   Some (Array_reply [Nil_reply, Status_reply ''OK''])], []),
       unread = []\<rparr>
     = (Inr False,
        \<lparr>m_redis = ([], [MULTI, SET_NX_EXAT (SPREDIS_SID sid) val expiration,
                          SET_NX_EXAT (version_of sid) ''1'' expiration, EXEC]),
         unread = []\<rparr>)
   \<and> fst (RedisConnection_set redis_server \<lparr>m_context = ''s'', m_key = ''k'', m_prefix = ''''\<rparr>
            ''hello'' 1700000000 (fresh [''{s:k}'' \<mapsto> (''old'', None)]))
     = Inr False
   \<and> db (m_redis (snd (RedisConnection_set redis_server
            \<lparr>m_context = ''s'', m_key = ''k'', m_prefix = ''''\<rparr>
            ''hello'' 1700000000 (fresh [''{s:k}'' \<mapsto> (''old'', None)])))) ''version.of:{s:k}''
     = Some (''1'', Some 1700000000)"
  by (simp add: RedisConnection_set_def set_results_def action_defs scripted_def redis_server_def
      r_elements_def fresh_def SPREDIS_SID_def version_of_def)

lemma forceGet_absent_key:
  assumes "queued (m_redis c) = None" and "unread c = []" and "\<not> dirty (m_redis c)"
    and "db (m_redis c) (SPREDIS_SID sid) = None \<or> db (m_redis c) (version_of sid) = None"
  shows "fst (forceGet redis_server sid True out_expiration c) = Inr (0, None, None)"
  using assms
  by (cases out_expiration)
     (auto simp: forceGet_def forceGet_results_def action_defs redis_server_def
      keys_distinct r_elements_def element_at_def split: option.splits)

text \<open>
  Claim C7. The claim asks that \<open>forceGet\<close> return 0 when the data key or the version key
  is absent, for every combination of output parameters, reading the \<open>EXEC\<close> reply only
  within its element count. With both outputs omitted the reply has one element and the
  test of the second element's type reads past it; with only the expiration requested the
  second element is the answer to \<open>EXPIRETIME\<close>, which is \<open>-2\<close> and not \<open>nil\<close> for an
  absent data key, and the version is returned.
\<close>

theorem forceGet_reads_past_the_reply:
  "forceGet scripted sid False False
      \<lparr>m_redis = ([Some (Status_reply ''OK''), Some (Status_reply ''QUEUED''),
                   Some (Array_reply [String_reply version])], []),
       unread = []\<rparr>
     = (Inl UndefinedBehaviour,
        \<lparr>m_redis = ([], [MULTI, GET (version_of sid), EXEC]), unread = []\<rparr>)
   \<and> fst (forceGet redis_server \<lparr>m_context = ''s'', m_key = ''k'', m_prefix = ''''\<rparr> False False
            (fresh [''{s:k}'' \<mapsto> (''v'', None), ''version.of:{s:k}'' \<mapsto> (''7'', None)]))
     = Inl UndefinedBehaviour
   \<and> fst (forceGet redis_server \<lparr>m_context = ''s'', m_key = ''k'', m_prefix = ''''\<rparr> False True
            (fresh [''version.of:{s:k}'' \<mapsto> (''7'', None)]))
     = Inr (7, None, Some (- 2))"
  by (simp add: forceGet_def forceGet_results_def action_defs scripted_def redis_server_def
      r_elements_def element_at_def fresh_def SPREDIS_SID_def version_of_def
      parseNumber_def stoi_def sign_and_digits_def isspace_def isdigit_def decimal_def)

lemma incr_as_int: "(ucast (scast (v :: 32 word) + 1 :: 64 word) :: 32 word) = v + 1"
proof -
  have "(scast v + 1 :: 64 word) = word_of_int (sint v + 1)"
    by simp
  then have "(ucast (scast v + 1 :: 64 word) :: 32 word)
      = ucast (word_of_int (sint v + 1) :: 64 word)"
    by (simp only:)
  also have "\<dots> = word_of_int (sint v + 1)"
    by (rule ucast_down_wi) (simp add: is_down)
  also have "\<dots> = v + 1"
    by simp
  finally show ?thesis .
qed

lemma sint_32_bound: "sint (v :: 32 word) \<noteq> 9223372036854775807"
proof -
  have "sint v < 2 ^ 31" using sint_lt [of v] by simp
  then show ?thesis by simp
qed

lemma sint_succ:
  assumes "sint (v :: 32 word) < 2147483647"
  shows "sint (v + 1) = sint v + 1"
proof -
  have "- (2 ^ 31) \<le> sint v" using sint_ge [of v] by simp
  then have "signed_take_bit 31 (sint v + 1) = sint v + 1"
    using assms by (intro signed_take_bit_int_eq_self) simp_all
  then show ?thesis by (simp add: sint_word_ariths)
qed

lemma updateVersioned_try_success:
  assumes "queued (m_redis c) = None" and "unread c = []" and "\<not> dirty (m_redis c)"
    and "db (m_redis c) (version_of sid) = Some (s, ttl)"
    and "db (m_redis c) (SPREDIS_SID sid) = Some (old, ttl')"
    and "string2ll s = Some (sint ifVersion)"
    and "parseNumber s = ifVersion"
  shows "updateVersioned_try redis_server sid val expiration ifVersion c
       = (Inr (Some (ifVersion + 1)),
          c\<lparr>m_redis := (m_redis c)
              \<lparr>db := (db (m_redis c))
                 (SPREDIS_SID sid \<mapsto> (val, if expiration = 0 then ttl' else Some expiration),
                  version_of sid \<mapsto> (string_of_int (sint ifVersion + 1),
                                     if expiration = 0 then ttl else Some expiration)),
               watching := [], dirty := False\<rparr>\<rparr>)"
  using assms
  by (simp add: updateVersioned_try_def updateVersioned_results_def getOnlyVersion_def action_defs
      redis_server_def keys_distinct r_elements_def incr_as_int sint_32_bound)



lemma updateVersioned_try_mismatch:
  assumes "queued (m_redis c) = None" and "unread c = []"
    and "db (m_redis c) (version_of sid) = Some (s, ttl)"
    and "parseNumber s \<noteq> ifVersion"
  shows "updateVersioned_try redis_server sid val expiration ifVersion c
       = (Inr (Some (- 1)),
          c\<lparr>m_redis := (m_redis c)\<lparr>watching := version_of sid # watching (m_redis c)\<rparr>\<rparr>)"
  using assms
  by (simp add: updateVersioned_try_def getOnlyVersion_def action_defs redis_server_def)

lemma updateVersioned_mismatch:
  assumes "queued (m_redis c) = None" and "unread c = []"
    and "db (m_redis c) (version_of sid) = Some (s, ttl)"
    and "parseNumber s \<noteq> ifVersion"
  shows "updateVersioned redis_server sid val expiration ifVersion c
       = (Inr (- 1),
          c\<lparr>m_redis := (m_redis c)\<lparr>watching := version_of sid # watching (m_redis c)\<rparr>\<rparr>)"
  unfolding updateVersioned_def
  by (subst updateVersioned_loop.simps) (simp add: updateVersioned_try_mismatch [OF assms])



text \<open>
  The replies of an aborted round are what the Redis model sends when another client
  writes the version key, with the value it had, between the \<open>GET\<close> and the \<open>MULTI\<close>;
  the store then holds that write and nothing of the round.
\<close>

lemma aborted_round_from_the_server:
  assumes "queued st = None" and "db st (version_of sid) = Some (s, ttl)"
  shows "(case answers redis_server [WATCH (version_of sid), GET (version_of sid)] st of
            (before, st1) \<Rightarrow>
              (case answers redis_server (drop 2 (round_commands sid val expiration))
                      (other_client_sets (version_of sid) s st1) of
                 (after, st2) \<Rightarrow> (before @ after, db st2)))
         = (aborted_round expiration s, (db st)(version_of sid \<mapsto> (s, None)))"
  using assms
  by (simp add: round_commands_def aborted_round_def redis_server_def other_client_sets_def)

lemma updateVersioned_try_aborted:
  assumes "parseNumber s = ifVersion"
  shows "updateVersioned_try scripted sid val expiration ifVersion
           \<lparr>m_redis = (aborted_round expiration s @ rest, sent), unread = []\<rparr>
       = (Inr None,
          \<lparr>m_redis = (rest, sent @ round_commands sid val expiration), unread = []\<rparr>)"
  using assms
  by (simp add: updateVersioned_try_def updateVersioned_results_def getOnlyVersion_def action_defs
      scripted_def aborted_round_def round_commands_def)

lemma updateVersioned_three_aborted:
  assumes "parseNumber s1 = ifVersion" and "parseNumber s2 = ifVersion"
    and "parseNumber s3 = ifVersion"
  shows "updateVersioned scripted sid val expiration ifVersion
           \<lparr>m_redis = (aborted_round expiration s1 @ aborted_round expiration s2
                        @ aborted_round expiration s3 @ rest, sent),
            unread = []\<rparr>
       = (Inr 0,
          \<lparr>m_redis = (rest, sent @ round_commands sid val expiration
                              @ round_commands sid val expiration
                              @ round_commands sid val expiration),
            unread = []\<rparr>)"
  unfolding updateVersioned_def
  apply (subst updateVersioned_loop.simps)
  apply (simp add: updateVersioned_try_aborted [OF assms(1)])
  apply (subst updateVersioned_loop.simps)
  apply (simp add: updateVersioned_try_aborted [OF assms(2)])
  apply (subst updateVersioned_loop.simps)
  apply (simp add: updateVersioned_try_aborted [OF assms(3)])
  apply (subst updateVersioned_loop.simps)
  apply simp
  done

text \<open>
  Claim C4, as amended. For every id, \<open>updateVersioned\<close> returns: \<open>-1\<close>, as a value, when
  the version read differs from \<open>ifVersion\<close>, and the store is as it was (only the watch is
  left on the connection); the old version plus one, as integers, when the version read is
  \<open>ifVersion\<close>, \<open>ifVersion\<close> is less than 2147483647 and the transaction goes through, with
  the value written, the version key incremented and both expirations set when one is
  given; and 0, as a value, after three rounds whose \<open>EXEC\<close> is answered \<open>nil\<close>. The first
  two parts are stated on the Redis model, the third on the replies themselves, since only
  another client's write makes \<open>EXEC\<close> answer \<open>nil\<close>.
\<close>

theorem updateVersioned_return_values:
  "(queued (m_redis c) = None \<and> unread c = []
      \<and> db (m_redis c) (version_of sid) = Some (s, ttl) \<and> parseNumber s \<noteq> ifVersion
    \<longrightarrow> updateVersioned redis_server sid val expiration ifVersion c
        = (Inr (- 1),
           c\<lparr>m_redis := (m_redis c)\<lparr>watching := version_of sid # watching (m_redis c)\<rparr>\<rparr>))
   \<and> (queued (m_redis c) = None \<and> unread c = [] \<and> \<not> dirty (m_redis c)
      \<and> db (m_redis c) (version_of sid) = Some (s, ttl)
      \<and> db (m_redis c) (SPREDIS_SID sid) = Some (old, ttl')
      \<and> string2ll s = Some (sint ifVersion) \<and> parseNumber s = ifVersion
      \<and> sint ifVersion < 2147483647
    \<longrightarrow> updateVersioned redis_server sid val expiration ifVersion c
        = (Inr (ifVersion + 1),
           c\<lparr>m_redis := (m_redis c)
               \<lparr>db := (db (m_redis c))
                  (SPREDIS_SID sid \<mapsto> (val, if expiration = 0 then ttl' else Some expiration),
                   version_of sid \<mapsto> (string_of_int (sint ifVersion + 1),
                                      if expiration = 0 then ttl else Some expiration)),
                watching := [], dirty := False\<rparr>\<rparr>)
        \<and> sint (ifVersion + 1) = sint ifVersion + 1)
   \<and> (parseNumber s1 = ifVersion \<and> parseNumber s2 = ifVersion \<and> parseNumber s3 = ifVersion
    \<longrightarrow> updateVersioned scripted sid val expiration ifVersion
          \<lparr>m_redis = (aborted_round expiration s1 @ aborted_round expiration s2
                       @ aborted_round expiration s3 @ rest, sent),
           unread = []\<rparr>
        = (Inr 0,
           \<lparr>m_redis = (rest, sent @ round_commands sid val expiration
                               @ round_commands sid val expiration
                               @ round_commands sid val expiration),
            unread = []\<rparr>))"
proof (intro conjI impI)
  assume "queued (m_redis c) = None \<and> unread c = []
      \<and> db (m_redis c) (version_of sid) = Some (s, ttl) \<and> parseNumber s \<noteq> ifVersion"
  then have "queued (m_redis c) = None" and "unread c = []"
    and "db (m_redis c) (version_of sid) = Some (s, ttl)" and "parseNumber s \<noteq> ifVersion"
    by simp_all
  then show "updateVersioned redis_server sid val expiration ifVersion c
        = (Inr (- 1),
           c\<lparr>m_redis := (m_redis c)\<lparr>watching := version_of sid # watching (m_redis c)\<rparr>\<rparr>)"
    by (rule updateVersioned_mismatch)
next
  assume h: "queued (m_redis c) = None \<and> unread c = [] \<and> \<not> dirty (m_redis c)
      \<and> db (m_redis c) (version_of sid) = Some (s, ttl)
      \<and> db (m_redis c) (SPREDIS_SID sid) = Some (old, ttl')
      \<and> string2ll s = Some (sint ifVersion) \<and> parseNumber s = ifVersion
      \<and> sint ifVersion < 2147483647"
  then have "queued (m_redis c) = None" and "unread c = []" and "\<not> dirty (m_redis c)"
    and "db (m_redis c) (version_of sid) = Some (s, ttl)"
    and "db (m_redis c) (SPREDIS_SID sid) = Some (old, ttl')"
    and "string2ll s = Some (sint ifVersion)" and "parseNumber s = ifVersion"
    by simp_all
  then have "updateVersioned_try redis_server sid val expiration ifVersion c
       = (Inr (Some (ifVersion + 1)),
          c\<lparr>m_redis := (m_redis c)
              \<lparr>db := (db (m_redis c))
                 (SPREDIS_SID sid \<mapsto> (val, if expiration = 0 then ttl' else Some expiration),
                  version_of sid \<mapsto> (string_of_int (sint ifVersion + 1),
                                     if expiration = 0 then ttl else Some expiration)),
               watching := [], dirty := False\<rparr>\<rparr>)"
    by (rule updateVersioned_try_success)
  then show "updateVersioned redis_server sid val expiration ifVersion c
        = (Inr (ifVersion + 1),
           c\<lparr>m_redis := (m_redis c)
               \<lparr>db := (db (m_redis c))
                  (SPREDIS_SID sid \<mapsto> (val, if expiration = 0 then ttl' else Some expiration),
                   version_of sid \<mapsto> (string_of_int (sint ifVersion + 1),
                                      if expiration = 0 then ttl else Some expiration)),
                watching := [], dirty := False\<rparr>\<rparr>)"
    unfolding updateVersioned_def by (subst updateVersioned_loop.simps) simp
next
  assume "queued (m_redis c) = None \<and> unread c = [] \<and> \<not> dirty (m_redis c)
      \<and> db (m_redis c) (version_of sid) = Some (s, ttl)
      \<and> db (m_redis c) (SPREDIS_SID sid) = Some (old, ttl')
      \<and> string2ll s = Some (sint ifVersion) \<and> parseNumber s = ifVersion
      \<and> sint ifVersion < 2147483647"
  then have "sint ifVersion < 2147483647"
    by simp
  then show "sint (ifVersion + 1) = sint ifVersion + 1"
    by (rule sint_succ)
next
  assume "parseNumber s1 = ifVersion \<and> parseNumber s2 = ifVersion \<and> parseNumber s3 = ifVersion"
  then have "parseNumber s1 = ifVersion" and "parseNumber s2 = ifVersion"
    and "parseNumber s3 = ifVersion"
    by simp_all
  then show "updateVersioned scripted sid val expiration ifVersion
          \<lparr>m_redis = (aborted_round expiration s1 @ aborted_round expiration s2
                       @ aborted_round expiration s3 @ rest, sent),
           unread = []\<rparr>
        = (Inr 0,
           \<lparr>m_redis = (rest, sent @ round_commands sid val expiration
                               @ round_commands sid val expiration
                               @ round_commands sid val expiration),
            unread = []\<rparr>)"
    by (rule updateVersioned_three_aborted)
qed

lemma parseNumber_3: "parseNumber ''3'' = 3"
  by (simp add: parseNumber_def stoi_def sign_and_digits_def isspace_def isdigit_def decimal_def)

lemma string2ll_3: "string2ll ''3'' = Some 3"
  by (simp add: string2ll_def canonical_def isdigit_def decimal_def)

lemma string_of_int_4: "string_of_int 4 = ''4''"
  by (simp add: string_of_int_def digits_of.simps)

theorem updateVersioned_return_values_witness:
  "fst (updateVersioned redis_server \<lparr>m_context = ''s'', m_key = ''k'', m_prefix = ''''\<rparr> ''new'' 0 2
         (fresh [''{s:k}'' \<mapsto> (''old'', None), ''version.of:{s:k}'' \<mapsto> (''3'', None)]))
     = Inr (- 1)
   \<and> db (m_redis (snd (updateVersioned redis_server
         \<lparr>m_context = ''s'', m_key = ''k'', m_prefix = ''''\<rparr> ''new'' 0 2
         (fresh [''{s:k}'' \<mapsto> (''old'', None), ''version.of:{s:k}'' \<mapsto> (''3'', None)]))))
     = [''{s:k}'' \<mapsto> (''old'', None), ''version.of:{s:k}'' \<mapsto> (''3'', None)]
   \<and> fst (updateVersioned redis_server \<lparr>m_context = ''s'', m_key = ''k'', m_prefix = ''''\<rparr> ''new'' 0 3
         (fresh [''{s:k}'' \<mapsto> (''old'', None), ''version.of:{s:k}'' \<mapsto> (''3'', None)]))
     = Inr 4
   \<and> db (m_redis (snd (updateVersioned redis_server
         \<lparr>m_context = ''s'', m_key = ''k'', m_prefix = ''''\<rparr> ''new'' 0 3
         (fresh [''{s:k}'' \<mapsto> (''old'', None), ''version.of:{s:k}'' \<mapsto> (''3'', None)]))))
         ''version.of:{s:k}''
     = Some (''4'', None)
   \<and> fst (updateVersioned scripted \<lparr>m_context = ''s'', m_key = ''k'', m_prefix = ''''\<rparr> ''new'' 0 3
         \<lparr>m_redis = (aborted_round 0 ''3'' @ aborted_round 0 ''3'' @ aborted_round 0 ''3'' @ [], []),
          unread = []\<rparr>)
     = Inr 0"
  using
    updateVersioned_return_values [where c = "fresh [''{s:k}'' \<mapsto> (''old'', None), ''version.of:{s:k}'' \<mapsto> (''3'', None)]"
      and sid = "\<lparr>m_context = ''s'', m_key = ''k'', m_prefix = ''''\<rparr>" and s = "''3''" and ttl = None
      and ifVersion = 2 and val = "''new''" and expiration = 0]
    updateVersioned_return_values [where c = "fresh [''{s:k}'' \<mapsto> (''old'', None), ''version.of:{s:k}'' \<mapsto> (''3'', None)]"
      and sid = "\<lparr>m_context = ''s'', m_key = ''k'', m_prefix = ''''\<rparr>" and s = "''3''" and ttl = None
      and old = "''old''" and ttl' = None
      and ifVersion = 3 and val = "''new''" and expiration = 0
      and ?s1.0 = "''3''" and ?s2.0 = "''3''" and ?s3.0 = "''3''" and rest = "[]" and sent = "[]"]
  by (simp add: fresh_def SPREDIS_SID_def version_of_def parseNumber_3 string2ll_3 string_of_int_4)

lemma parseNumber_int_max: "parseNumber ''2147483647'' = 2147483647"
  by (simp add: parseNumber_def stoi_def sign_and_digits_def isspace_def isdigit_def decimal_def)

lemma string2ll_int_max: "string2ll ''2147483647'' = Some 2147483647"
  by (simp add: string2ll_def canonical_def isdigit_def decimal_def)

lemma string_of_int_past_int_max: "string_of_int 2147483648 = ''2147483648''"
  by (simp add: string_of_int_def digits_of.simps)

text \<open>
  The claim as it was stated, with no bound on \<open>ifVersion\<close>, at the largest \<open>int\<close>: the
  version read is \<open>ifVersion\<close> and the transaction goes through, the server stores
  2147483648, and the \<open>long long\<close> of the reply narrowed to \<open>int\<close> is \<open>-2147483648\<close>, which
  is not the old version plus one.
\<close>

theorem updateVersioned_wraps_at_int_max:
  "map_sum id sint
     (fst (updateVersioned redis_server \<lparr>m_context = ''s'', m_key = ''k'', m_prefix = []\<rparr> ''new'' 0
             2147483647
             (fresh [''{s:k}'' \<mapsto> (''old'', None),
                     ''version.of:{s:k}'' \<mapsto> (''2147483647'', None)])))
     = Inr (- 2147483648)
   \<and> map_sum id sint
     (fst (updateVersioned redis_server \<lparr>m_context = ''s'', m_key = ''k'', m_prefix = []\<rparr> ''new'' 0
             2147483647
             (fresh [''{s:k}'' \<mapsto> (''old'', None),
                     ''version.of:{s:k}'' \<mapsto> (''2147483647'', None)])))
     \<noteq> Inr (2147483647 + 1)
   \<and> db (m_redis (snd (updateVersioned redis_server
         \<lparr>m_context = ''s'', m_key = ''k'', m_prefix = []\<rparr> ''new'' 0 2147483647
         (fresh [''{s:k}'' \<mapsto> (''old'', None),
                 ''version.of:{s:k}'' \<mapsto> (''2147483647'', None)]))))
       ''version.of:{s:k}''
     = Some (''2147483648'', None)"
proof -
  have "updateVersioned_try redis_server \<lparr>m_context = ''s'', m_key = ''k'', m_prefix = []\<rparr>
          ''new'' 0 2147483647
          (fresh [''{s:k}'' \<mapsto> (''old'', None),
                  ''version.of:{s:k}'' \<mapsto> (''2147483647'', None)])
      = (Inr (Some (2147483647 + 1)),
         (fresh [''{s:k}'' \<mapsto> (''old'', None),
                 ''version.of:{s:k}'' \<mapsto> (''2147483647'', None)])
           \<lparr>m_redis := (m_redis (fresh [''{s:k}'' \<mapsto> (''old'', None),
                                       ''version.of:{s:k}'' \<mapsto> (''2147483647'', None)]))
              \<lparr>db := (db (m_redis (fresh [''{s:k}'' \<mapsto> (''old'', None),
                                        ''version.of:{s:k}'' \<mapsto> (''2147483647'', None)])))
                 (SPREDIS_SID \<lparr>m_context = ''s'', m_key = ''k'', m_prefix = []\<rparr>
                    \<mapsto> (''new'', if (0 :: longlong) = 0 then None else Some 0),
                  version_of \<lparr>m_context = ''s'', m_key = ''k'', m_prefix = []\<rparr>
                    \<mapsto> (string_of_int (sint (2147483647 :: 32 word) + 1),
                        if (0 :: longlong) = 0 then None else Some 0)),
               watching := [], dirty := False\<rparr>\<rparr>)"
    by (rule updateVersioned_try_success [where s = "''2147483647''" and old = "''old''"])
       (simp_all add: fresh_def SPREDIS_SID_def version_of_def parseNumber_int_max
          string2ll_int_max)
  then show ?thesis
    unfolding updateVersioned_def
    by (subst updateVersioned_loop.simps, subst updateVersioned_loop.simps,
        subst updateVersioned_loop.simps)
       (simp add: fresh_def SPREDIS_SID_def version_of_def string_of_int_past_int_max)
qed

section \<open>The cluster router\<close>

lemma RedisCluster_seeds_unreachable:
  "RedisCluster_seeds unreachable nodes s = (Inr (), s)"
  by (induction nodes) (auto simp: ret_def and_then_def unreachable_def split: prod.splits)

text \<open>
  The start-up scenario: the first seed refuses the connection, the second answers with an
  error, the third reports the slots, and the slot map is what the third reports.
\<close>

lemma ctor_seed_failover:
  "RedisCluster_ctor seed_failover
      \<lparr>initialNodes = [\<lparr>m_host = ''X'', m_port = 6379\<rparr>, \<lparr>m_host = ''Y'', m_port = 6379\<rparr>,
                       \<lparr>m_host = ''Z'', m_port = 6379\<rparr>],
       maxRetries = 5, baseWait = 500, maxWait = 0\<rparr> w
     = (Inr (),
        (\<lparr>m_connection_map = [],
          m_cluster_map =
            [(\<lparr>m_start = 0, m_end = 8191\<rparr>, \<lparr>m_host = ''Z'', m_port = 6379\<rparr>),
             (\<lparr>m_start = 8192, m_end = 16383\<rparr>, \<lparr>m_host = ''W'', m_port = 6380\<rparr>)],
          m_config =
            \<lparr>initialNodes = [\<lparr>m_host = ''X'', m_port = 6379\<rparr>, \<lparr>m_host = ''Y'', m_port = 6379\<rparr>,
                             \<lparr>m_host = ''Z'', m_port = 6379\<rparr>],
             maxRetries = 5, baseWait = 500, maxWait = 0\<rparr>\<rparr>, w))"
  by (simp add: RedisCluster_ctor_def seed_failover_def configure_from_def iterateSlots_def
      CacheSetter_def ClusterRange_ctor_def element_at_def r_elements_def ensureType_def
      operator_less_def compare_def and_then_def ret_def throw_def lift_def)

text \<open>
  Claim C2. The claim asks that the construction fail with a fatal error when every seed
  fails. When no seed can be reached, whatever the configuration, the constructor returns
  normally and leaves the router with an empty slot map.
\<close>

theorem constructor_returns_with_empty_slot_map:
  "RedisCluster_ctor unreachable config w
     = (Inr (), (\<lparr>m_connection_map = [], m_cluster_map = [], m_config = config\<rparr>, w))"
  by (simp add: RedisCluster_ctor_def RedisCluster_seeds_unreachable)

lemma findNodeEntryUnguarded_empty:
  "findNodeEntryUnguarded \<lparr>m_connection_map = cache, m_cluster_map = [], m_config = config\<rparr> sid
     = Null"
proof -
  have "lower_bound [] sid 0 0 = 0"
    by (subst lower_bound.simps) simp
  then show ?thesis
    by (simp add: findNodeEntryUnguarded_def cluster_map_find_def Let_def)
qed

text \<open>On a slot map that covers the id's slot the operation runs on the owner of the slot.\<close>

lemma hashSlot_example:
  "hashSlotUsing \<lparr>m_context = ''session'', m_key = ''_abc'', m_prefix = ''shib:''\<rparr> = 7232"
proof -
  have "(ucast (crc16_xmodem ''session:shib:_abc'') :: uint) mod 16384 = 7232"
    by code_simp
  then show ?thesis
    by (simp add: hashSlotUsing_concat calculate_Initial HashSlotCount_def)
qed

lemma wrappedCall_reaches_the_owner:
  "fst (wrappedCall seed_failover (\<lambda>conn w. (Inr (m_host conn), w))
         \<lparr>m_context = ''session'', m_key = ''_abc'', m_prefix = ''shib:''\<rparr> 0
         (\<lparr>m_connection_map = [],
           m_cluster_map =
             [(\<lparr>m_start = 0, m_end = 8191\<rparr>, \<lparr>m_host = ''Z'', m_port = 6379\<rparr>),
              (\<lparr>m_start = 8192, m_end = 16383\<rparr>, \<lparr>m_host = ''W'', m_port = 6380\<rparr>)],
           m_config = config\<rparr>, w))
     = Inr ''Z''"
  by (subst wrappedCall.simps)
     (simp add: wrappedCall_body_def findNodeEntryUnguarded_def cluster_map_find_def
      dispatchConnectionUnguarded_def lower_bound.simps range_less_id_def id_less_range_def
      compare_id_def hashSlot_example seed_failover_def and_then_def Let_def)

text \<open>
  An operation that loses its connection once: the router sleeps, rebuilds the slot map
  from the node it knew and runs the operation again. The rebuild cached its connection
  under the address of the copy's entry, so the second run does not find it and connects
  again, and the cache ends with two connections to the same node.
\<close>

lemma wrappedCall_after_a_rebuild:
  "wrappedCall seed_failover
      (\<lambda>conn w. if w = (0 :: nat) then (Inl ConnectionLostException, 1) else (Inr (m_host conn), w))
      \<lparr>m_context = ''session'', m_key = ''_abc'', m_prefix = ''shib:''\<rparr> 0
      (\<lparr>m_connection_map = [],
        m_cluster_map =
          [(\<lparr>m_start = 0, m_end = 8191\<rparr>, \<lparr>m_host = ''Z'', m_port = 6379\<rparr>),
           (\<lparr>m_start = 8192, m_end = 16383\<rparr>, \<lparr>m_host = ''W'', m_port = 6380\<rparr>)],
        m_config = \<lparr>initialNodes = [], maxRetries = 5, baseWait = 500, maxWait = 0\<rparr>\<rparr>, 0)
     = (Inr ''Z'',
        (\<lparr>m_connection_map =
            [(Cluster_map_entry (\<lparr>m_start = 0, m_end = 8191\<rparr>, \<lparr>m_host = ''Z'', m_port = 6379\<rparr>),
              \<lparr>m_host = ''Z'', m_port = 6379\<rparr>),
             (Previous_map_entry (\<lparr>m_start = 0, m_end = 8191\<rparr>, \<lparr>m_host = ''Z'', m_port = 6379\<rparr>),
              \<lparr>m_host = ''Z'', m_port = 6379\<rparr>)],
          m_cluster_map =
            [(\<lparr>m_start = 0, m_end = 8191\<rparr>, \<lparr>m_host = ''Z'', m_port = 6379\<rparr>),
             (\<lparr>m_start = 8192, m_end = 16383\<rparr>, \<lparr>m_host = ''W'', m_port = 6380\<rparr>)],
          m_config = \<lparr>initialNodes = [], maxRetries = 5, baseWait = 500, maxWait = 0\<rparr>\<rparr>, 1))"
  by (subst wrappedCall.simps, subst wrappedCall.simps)
     (simp add: wrappedCall_body_def findNodeEntryUnguarded_def cluster_map_find_def
      dispatchConnectionUnguarded_def resetSlotsCacheUnguarded_def tryWaitWithRetryNumber_def
      waitTime_def lower_bound.simps range_less_id_def id_less_range_def
      compare_id_def hashSlot_example seed_failover_def configure_from_def iterateSlots_def
      CacheSetter_def ClusterRange_ctor_def element_at_def r_elements_def ensureType_def
      operator_less_def compare_def and_then_def ret_def throw_def lift_def Let_def)

text \<open>On a slot map with a gap at the id's slot the lookup is null as well.\<close>

lemma wrappedCall_on_a_gap:
  "wrappedCall net fn \<lparr>m_context = ''session'', m_key = ''_abc'', m_prefix = ''shib:''\<rparr> recurse
      (\<lparr>m_connection_map = [],
        m_cluster_map =
          [(\<lparr>m_start = 8192, m_end = 16383\<rparr>, \<lparr>m_host = ''W'', m_port = 6380\<rparr>)],
        m_config = config\<rparr>, w)
     = (Inl UndefinedBehaviour,
        (\<lparr>m_connection_map = [],
          m_cluster_map =
            [(\<lparr>m_start = 8192, m_end = 16383\<rparr>, \<lparr>m_host = ''W'', m_port = 6380\<rparr>)],
          m_config = config\<rparr>, w))"
  by (subst wrappedCall.simps)
     (simp add: wrappedCall_body_def findNodeEntryUnguarded_def cluster_map_find_def
      dispatchConnectionUnguarded_def lower_bound.simps range_less_id_def id_less_range_def
      compare_id_def hashSlot_example and_then_def Let_def)

text \<open>
  Claim C8. The claim asks that the lookup always yield a node before a connection is
  made, also when the slot map is empty after a failed start. On the empty slot map the
  lookup yields the null pointer, and with nothing cached for it the router dereferences
  it to connect: for every operation, every id and every network.
\<close>

theorem wrappedCall_dereferences_null_node:
  "wrappedCall net fn sid recurse
      (\<lparr>m_connection_map = [], m_cluster_map = [], m_config = config\<rparr>, w)
     = (Inl UndefinedBehaviour,
        (\<lparr>m_connection_map = [], m_cluster_map = [], m_config = config\<rparr>, w))"
proof -
  have "wrappedCall_body net fn sid
          (\<lparr>m_connection_map = [], m_cluster_map = [], m_config = config\<rparr>, w)
      = (Inl UndefinedBehaviour,
         (\<lparr>m_connection_map = [], m_cluster_map = [], m_config = config\<rparr>, w))"
    by (simp add: wrappedCall_body_def and_then_def findNodeEntryUnguarded_empty
        dispatchConnectionUnguarded_def)
  then show ?thesis
    by (subst wrappedCall.simps) simp
qed
end
